theory Spec2Isabelle
  imports Complex_Main "HOL-Library.Word"
begin

unbundle bit_operations_syntax

section \<open>Data model of helloworld.c\<close>

type_synonym u8 = "8 word"
type_synonym u16 = "16 word"
type_synonym u32 = "32 word"

text \<open>\<^verbatim>\<open>typedef enum DemoMode\<close>, in declaration order.\<close>

datatype DemoMode =
    DEMO_MODE_PAUSED
  | DEMO_MODE_HW_TONE_GEN
  | DEMO_MODE_SW_TONE_GEN
  | DEMO_MODE_RECV_WAV_FILE
  | DEMO_MODE_PLAY_WAV_FILE

text \<open>
  The status codes of \<^verbatim>\<open>xstatus.h\<close> that the DMA driver hands back. The program only
  ever compares a status with \<^verbatim>\<open>XST_SUCCESS\<close> and only ever returns
  \<^verbatim>\<open>XST_SUCCESS\<close> or \<^verbatim>\<open>XST_FAILURE\<close>.
\<close>

datatype XStatus = XST_SUCCESS | XST_FAILURE | XST_INVALID_PARAM

datatype direction = XAXIDMA_DMA_TO_DEVICE | XAXIDMA_DEVICE_TO_DMA

text \<open>\<^verbatim>\<open>struct GpioIn_Data\<close>.\<close>

record GpioIn_Data =
  buttons :: u8
  switches :: u16
  button_pe :: u8
  button_ne :: u8
  switch_pe :: u16
  switch_ne :: u16

text \<open>An argument of \<^verbatim>\<open>xil_printf\<close>: a number (\<^verbatim>\<open>%d\<close>) or the bytes of a string (\<^verbatim>\<open>%s\<close>).\<close>

datatype parg = PInt u32 | PStr "u8 list"

text \<open>
  Every call that leaves the program (driver, cache, allocator, console, timer) is an
  event of the trace, in program order, with the arguments of the call. The format
  strings are written without their trailing \<^verbatim>\<open>\r\n\<close>, without a leading \<^verbatim>\<open>\n\<close>
  and without the quotes that \<^verbatim>\<open>recv_wav\<close> prints around \<^verbatim>\<open>%s\<close>.
\<close>

datatype event =
    Xil_DCacheFlushRange u32 u32
  | XAxiDma_SimpleTransfer u32 u32 direction
  | XAxiDma_Busy direction
  | XAxiDma_ReadReg_SR direction
  | XAxiDma_Reset
  | XAxiDma_ResetIsDone
  | XGpio_DiscreteRead nat
  | XUartLite_ResetFifos
  | XUartLite_Recv u32
  | xil_printf string "parg list"
  | malloc u32
  | free u32
  | usleep nat
  | sleep nat

text \<open>
  The peripherals are not part of the program. What a driver call returns is given by an
  oracle that may depend on everything that has happened so far (the trace before the
  call). \<^verbatim>\<open>XAXIDMA_IRQ_ERROR_MASK\<close> is a constant of the driver header
  \<^verbatim>\<open>xaxidma_hw.h\<close>, which is not among the sources: it is a parameter here.
\<close>

record hw =
  SimpleTransfer_ret :: "event list \<Rightarrow> XStatus"
  Busy_ret :: "event list \<Rightarrow> u32"
  ReadReg_SR_ret :: "event list \<Rightarrow> u32"
  ResetIsDone_ret :: "event list \<Rightarrow> u32"
  DiscreteRead_ret :: "event list \<Rightarrow> u32"
  UartLite_Recv_ret :: "event list \<Rightarrow> u8 option"
  malloc_ret :: "event list \<Rightarrow> u32"
  XAXIDMA_IRQ_ERROR_MASK :: u32

text \<open>
  The state the program owns: \<^verbatim>\<open>p_demo_inst->mode\<close>, the \<^verbatim>\<open>static\<close> variable
  \<^verbatim>\<open>last\<close> of \<^verbatim>\<open>get_gpio_data\<close> (here \<open>last_gpio\<close>), the byte-addressed memory (32-bit addresses, as
  \<^verbatim>\<open>UINTPTR\<close> on the MicroBlaze), and the trace of calls made so far.
\<close>

record world =
  mode :: DemoMode
  last_gpio :: GpioIn_Data
  mem :: "u32 \<Rightarrow> u8"
  trace :: "event list"

definition emit :: "event \<Rightarrow> world \<Rightarrow> world" where
  "emit e w = w\<lparr>trace := trace w @ [e]\<rparr>"

section \<open>DMA transfers\<close>

text \<open>
  \<^verbatim>\<open>while (XAxiDma_Busy(..., dir));\<close> and the \<^verbatim>\<open>do { busy = XAxiDma_Busy(..., dir); } while (busy);\<close>
  of \<^verbatim>\<open>dma_receive\<close>: poll, and poll again as long as the answer is not zero. A device
  that stays busy for ever makes the loop run for ever: the result is \<open>None\<close>.
\<close>

partial_function (option) wait_while_busy :: "hw \<Rightarrow> direction \<Rightarrow> world \<Rightarrow> world option" where
  "wait_while_busy h d w =
     (if Busy_ret h (trace w) \<noteq> 0
      then wait_while_busy h d (emit (XAxiDma_Busy d) w)
      else Some (emit (XAxiDma_Busy d) w))"

text \<open>\<^verbatim>\<open>XStatus dma_receive(Demo *p_demo_inst, UINTPTR buffer, u32 length)\<close>\<close>

definition dma_receive :: "hw \<Rightarrow> u32 \<Rightarrow> u32 \<Rightarrow> world \<Rightarrow> (XStatus \<times> world) option" where
  "dma_receive h buffer len w0 =
     (let w1 = emit (Xil_DCacheFlushRange buffer len) w0;
          status = SimpleTransfer_ret h (trace w1);
          w2 = emit (XAxiDma_SimpleTransfer buffer len XAXIDMA_DEVICE_TO_DMA) w1
      in if status \<noteq> XST_SUCCESS
         then Some (XST_FAILURE, emit (xil_printf ''ERROR: failed to kick off S2MM transfer'' []) w2)
         else (case wait_while_busy h XAXIDMA_DEVICE_TO_DMA w2 of
                 None \<Rightarrow> None
               | Some w3 \<Rightarrow>
                   (let sr = ReadReg_SR_ret h (trace w3);
                        w4 = emit (XAxiDma_ReadReg_SR XAXIDMA_DEVICE_TO_DMA) w3
                    in if sr AND XAXIDMA_IRQ_ERROR_MASK h \<noteq> 0
                       then Some (XST_FAILURE,
                                  emit (xil_printf ''ERROR: AXI DMA returned an error during the S2MM transfer'' []) w4)
                       else Some (XST_SUCCESS, emit (Xil_DCacheFlushRange buffer len) w4))))"

text \<open>
  \<^verbatim>\<open>XStatus dma_send(Demo *p_demo_inst, UINTPTR buffer, u32 length)\<close>. Unlike
  \<^verbatim>\<open>dma_receive\<close>, the branch for a failed \<^verbatim>\<open>XAxiDma_SimpleTransfer\<close> only prints: it
  has no \<^verbatim>\<open>return\<close>, and the function goes on to wait and to read the status register.
\<close>

definition dma_send :: "hw \<Rightarrow> u32 \<Rightarrow> u32 \<Rightarrow> world \<Rightarrow> (XStatus \<times> world) option" where
  "dma_send h buffer len w0 =
     (let w1 = emit (Xil_DCacheFlushRange buffer len) w0;
          status = SimpleTransfer_ret h (trace w1);
          w2 = emit (XAxiDma_SimpleTransfer buffer len XAXIDMA_DMA_TO_DEVICE) w1;
          w2' = (if status \<noteq> XST_SUCCESS
                 then emit (xil_printf ''ERROR: failed to kick off MM2S transfer'' []) w2
                 else w2)
      in case wait_while_busy h XAXIDMA_DMA_TO_DEVICE w2' of
           None \<Rightarrow> None
         | Some w3 \<Rightarrow>
             (let sr = ReadReg_SR_ret h (trace w3);
                  w4 = emit (XAxiDma_ReadReg_SR XAXIDMA_DMA_TO_DEVICE) w3
              in if sr AND XAXIDMA_IRQ_ERROR_MASK h \<noteq> 0
                 then Some (XST_FAILURE,
                            emit (xil_printf ''ERROR: AXI DMA returned an error during the MM2S transfer'' []) w4)
                 else Some (XST_SUCCESS, emit (Xil_DCacheFlushRange buffer len) w4)))"

text \<open>\<^verbatim>\<open>void dma_reset(Demo *p_demo_inst)\<close>: reset, then spin until the reset is done.\<close>

partial_function (option) wait_reset_done :: "hw \<Rightarrow> world \<Rightarrow> world option" where
  "wait_reset_done h w =
     (if ResetIsDone_ret h (trace w) = 0
      then wait_reset_done h (emit XAxiDma_ResetIsDone w)
      else Some (emit XAxiDma_ResetIsDone w))"

definition dma_reset :: "hw \<Rightarrow> world \<Rightarrow> world option" where
  "dma_reset h w = wait_reset_done h (emit XAxiDma_Reset w)"

section \<open>Inputs and the mode switch\<close>

text \<open>
  \<^verbatim>\<open>GpioIn_Data get_gpio_data(Demo *p_demo_inst)\<close>: channel 1 is read into the 8-bit
  \<^verbatim>\<open>buttons\<close>, channel 2 into the 16-bit \<^verbatim>\<open>switches\<close>; the edges compare them with
  \<^verbatim>\<open>last\<close>, which then becomes the new sample.
\<close>

definition get_gpio_data :: "hw \<Rightarrow> world \<Rightarrow> GpioIn_Data \<times> world" where
  "get_gpio_data h w0 =
     (let b = (ucast (DiscreteRead_ret h (trace w0)) :: u8);
          w1 = emit (XGpio_DiscreteRead 1) w0;
          s = (ucast (DiscreteRead_ret h (trace w1)) :: u16);
          w2 = emit (XGpio_DiscreteRead 2) w1;
          data = \<lparr>buttons = b, switches = s,
                  button_pe = b AND NOT (buttons (last_gpio w0)),
                  button_ne = NOT b AND buttons (last_gpio w0),
                  switch_pe = s AND NOT (switches (last_gpio w0)),
                  switch_ne = NOT s AND switches (last_gpio w0)\<rparr>
      in (data, w2\<lparr>last_gpio := data\<rparr>))"

text \<open>The first \<^verbatim>\<open>switch\<close> of the loop of \<^verbatim>\<open>main\<close>, on \<^verbatim>\<open>data.button_pe\<close>.\<close>

definition mode_switch :: "u8 \<Rightarrow> world \<Rightarrow> world" where
  "mode_switch pe w =
     (if pe = 0x01 then emit (xil_printf ''Demo paused'' []) (w\<lparr>mode := DEMO_MODE_PAUSED\<rparr>)
      else if pe = 0x04 then
        emit (sleep 1) (emit (xil_printf ''Demo prepared to receive wav file'' [])
          (w\<lparr>mode := DEMO_MODE_RECV_WAV_FILE\<rparr>))
      else if pe = 0x08 then
        emit (xil_printf ''Demo playing back wav file'' []) (w\<lparr>mode := DEMO_MODE_PLAY_WAV_FILE\<rparr>)
      else if pe = 0x10 then
        emit (xil_printf ''Demo generating 261 Hz tone in SW'' []) (w\<lparr>mode := DEMO_MODE_SW_TONE_GEN\<rparr>)
      else w)"

section \<open>WAV decoding and playback\<close>

text \<open>
  \<^verbatim>\<open>u32 buf2u32(u8 buffer[4])\<close> and \<^verbatim>\<open>u16 buf2u16(u8 buffer[2])\<close>: the argument is a
  pointer, here an address of the memory.
\<close>

definition buf2u32 :: "(u32 \<Rightarrow> u8) \<Rightarrow> u32 \<Rightarrow> u32" where
  "buf2u32 m buffer =
     push_bit 24 (ucast (m (buffer + 3))) OR push_bit 16 (ucast (m (buffer + 2)))
       OR push_bit 8 (ucast (m (buffer + 1))) OR ucast (m buffer)"

definition buf2u16 :: "(u32 \<Rightarrow> u8) \<Rightarrow> u32 \<Rightarrow> u16" where
  "buf2u16 m buffer = push_bit 8 (ucast (m (buffer + 1))) OR ucast (m buffer)"

text \<open>
  \<^verbatim>\<open>u8 *buf2str(u8 buffer[], u8 str[], int length)\<close> copies \<^verbatim>\<open>length\<close> bytes into
  \<^verbatim>\<open>str\<close> and ends them with a zero byte; the result is the content of \<^verbatim>\<open>str\<close>.
  \<^verbatim>\<open>%s\<close> prints such an array as a C string: the bytes before the first zero byte.
\<close>

definition buf2str :: "(u32 \<Rightarrow> u8) \<Rightarrow> u32 \<Rightarrow> nat \<Rightarrow> u8 list" where
  "buf2str m buffer n = map (\<lambda>k. m (buffer + of_nat k)) [0..<n] @ [0]"

definition c_string :: "u8 list \<Rightarrow> u8 list" where
  "c_string str = takeWhile (\<lambda>b. b \<noteq> 0) str"

text \<open>
  \<^verbatim>\<open>const u32 max_file_size = 0x7FFFFF\<close>: the size of the one buffer \<^verbatim>\<open>file\<close> that
  \<^verbatim>\<open>main\<close> allocates.
\<close>

definition max_file_size :: u32 where
  "max_file_size = 0x7FFFFF"

text \<open>
  The pointer walk at the head of \<^verbatim>\<open>play_wav\<close> (and, up to \<^verbatim>\<open>p_data\<close>, of
  \<^verbatim>\<open>recv_wav\<close>): \<^verbatim>\<open>ptr += 12\<close>, \<^verbatim>\<open>p_format = ptr\<close>,
  \<^verbatim>\<open>ptr += 8 + buf2u32(p_format->fmt_chunk_size)\<close>, \<^verbatim>\<open>p_data = ptr\<close>, \<^verbatim>\<open>ptr += 8\<close>,
  \<^verbatim>\<open>wav_data = ptr\<close>. The field \<^verbatim>\<open>fmt_chunk_size\<close> is 4 bytes into \<^verbatim>\<open>Wav_FormatRaw\<close>,
  \<^verbatim>\<open>data_chunk_size\<close> 4 bytes into \<^verbatim>\<open>Wav_DataRaw\<close>, \<^verbatim>\<open>overall_size\<close> 4 bytes into
  \<^verbatim>\<open>Wav_HeaderRaw\<close>.
\<close>

definition p_format_of :: "u32 \<Rightarrow> u32" where
  "p_format_of file = file + 12"

definition p_data_of :: "(u32 \<Rightarrow> u8) \<Rightarrow> u32 \<Rightarrow> u32" where
  "p_data_of m file = p_format_of file + (8 + buf2u32 m (p_format_of file + 4))"

definition wav_data_of :: "(u32 \<Rightarrow> u8) \<Rightarrow> u32 \<Rightarrow> u32" where
  "wav_data_of m file = p_data_of m file + 8"

text \<open>
  \<^verbatim>\<open>(u8)((u16)(wav_data[i] + 32768) >> 8)\<close>: the \<^verbatim>\<open>u16\<close> operand is promoted to
  \<^verbatim>\<open>int\<close> for the addition, the sum is cut to 16 bits, promoted again for the shift and
  cut to 8 bits.
\<close>

definition downscale :: "u16 \<Rightarrow> u8" where
  "downscale x = word_of_int (drop_bit 8 (uint (word_of_int (uint x + 32768) :: u16)))"

text \<open>
  The conversion loop \<^verbatim>\<open>for (int i=0; i<dma_data_length; i++)\<close>. \<^verbatim>\<open>wav_data[i]\<close> is
  the 16-bit value at \<^verbatim>\<open>wav_data + 2*i\<close>, low byte first as in \<^verbatim>\<open>buf2u16\<close> (the
  byte order of WAV data and of the little-endian MicroBlaze). \<^verbatim>\<open>i\<close> stays below
  \<^verbatim>\<open>dma_data_length\<close>, which is at most \<open>0x7FFFFFFF\<close>, so the \<^verbatim>\<open>int\<close> never overflows.
\<close>

function downscale_loop :: "u32 \<Rightarrow> u32 \<Rightarrow> u32 \<Rightarrow> nat \<Rightarrow> (u32 \<Rightarrow> u8) \<Rightarrow> (u32 \<Rightarrow> u8)" where
  "downscale_loop wav_data dma_data dma_data_length k m =
     (if k < unat dma_data_length
      then downscale_loop wav_data dma_data dma_data_length (Suc k)
             (m(dma_data + of_nat k := downscale (buf2u16 m (wav_data + 2 * of_nat k))))
      else m)"
  by pat_completeness auto
termination
  by (relation "measure (\<lambda>(wav_data, dma_data, dma_data_length, k, m). unat dma_data_length - k)") auto

declare downscale_loop.simps [simp del]

text \<open>\<^verbatim>\<open>void play_wav(Demo *p_demo_inst, u8* file)\<close>\<close>

definition play_wav :: "hw \<Rightarrow> u32 \<Rightarrow> world \<Rightarrow> world option" where
  "play_wav h file w0 =
     (let p_data = p_data_of (mem w0) file;
          wav_data = wav_data_of (mem w0) file;
          w1 = emit (xil_printf ''preparing for playback'' []) w0
      in if mem w1 file = 0
         then Some ((emit (xil_printf ''Must receive a WAV file to be able to play'' []) w1)
                      \<lparr>mode := DEMO_MODE_PAUSED\<rparr>)
         else
           (let dma_data_length = buf2u32 (mem w1) (p_data + 4) * 1 div 2;
                dma_data = malloc_ret h (trace w1);
                w2 = emit (malloc dma_data_length) w1;
                w3 = w2\<lparr>mem := downscale_loop wav_data dma_data dma_data_length 0 (mem w2)\<rparr>
            in case dma_send h dma_data dma_data_length w3 of
                 None \<Rightarrow> None
               | Some (status, w4) \<Rightarrow>
                   (case dma_reset h
                           (emit (free dma_data) (emit (sleep 2)
                              (emit (xil_printf ''sleep for a while'' []) w4))) of
                      None \<Rightarrow> None
                    | Some w5 \<Rightarrow>
                        Some (emit (xil_printf ''Exiting play mode'' [])
                                (w5\<lparr>mode := DEMO_MODE_PAUSED\<rparr>)))))"

text \<open>
  \<^verbatim>\<open>u32 uart_recv(Demo *p_demo_inst, u8 *buffer, unsigned int length)\<close>: one byte per call of
  \<^verbatim>\<open>XUartLite_Recv\<close>, which stores the byte and returns 1, or returns 0 when nothing has
  arrived.
\<close>

partial_function (option) uart_recv_loop ::
    "hw \<Rightarrow> u32 \<Rightarrow> u32 \<Rightarrow> u32 \<Rightarrow> world \<Rightarrow> (u32 \<times> world) option" where
  "uart_recv_loop h buffer len received_count w =
     (if received_count < len
      then (case UartLite_Recv_ret h (trace w) of
              None \<Rightarrow>
                uart_recv_loop h buffer len received_count
                  (emit (XUartLite_Recv (buffer + received_count)) w)
            | Some b \<Rightarrow>
                uart_recv_loop h buffer len (received_count + 1)
                  (emit (XUartLite_Recv (buffer + received_count))
                     (w\<lparr>mem := (mem w)(buffer + received_count := b)\<rparr>)))
      else Some (received_count, w))"

definition uart_recv :: "hw \<Rightarrow> u32 \<Rightarrow> u32 \<Rightarrow> world \<Rightarrow> (u32 \<times> world) option" where
  "uart_recv h buffer len w = uart_recv_loop h buffer len 0 w"

text \<open>
  \<^verbatim>\<open>var = buf2u32(p_header->overall_size)-4\<close>, the length of the second \<^verbatim>\<open>uart_recv\<close> of
  \<^verbatim>\<open>recv_wav\<close>.
\<close>

definition recv_var :: "(u32 \<Rightarrow> u8) \<Rightarrow> u32 \<Rightarrow> u32" where
  "recv_var m file = buf2u32 m (file + 4) - 4"

text \<open>The block of \<^verbatim>\<open>xil_printf\<close> calls of \<^verbatim>\<open>recv_wav\<close> that lists the fields.\<close>

definition file_info :: "(u32 \<Rightarrow> u8) \<Rightarrow> u32 \<Rightarrow> event list" where
  "file_info m file =
     (let p_header = file; p_format = p_format_of file; p_data = p_data_of m file in
      [xil_printf ''file info: '' [],
       xil_printf ''  header:'' [],
       xil_printf ''    riff: %s'' [PStr (c_string (buf2str m p_header 4))],
       xil_printf ''    overall_size: %d'' [PInt (buf2u32 m (p_header + 4))],
       xil_printf ''    wave: %s'' [PStr (c_string (buf2str m (p_header + 8) 4))],
       xil_printf ''  format:'' [],
       xil_printf ''    fmt_chunk_marker: %s'' [PStr (c_string (buf2str m p_format 4))],
       xil_printf ''    fmt_chunk_size: %d'' [PInt (buf2u32 m (p_format + 4))],
       xil_printf ''    format_type: %d'' [PInt (ucast (buf2u16 m (p_format + 8)))],
       xil_printf ''    channels: %d'' [PInt (ucast (buf2u16 m (p_format + 10)))],
       xil_printf ''    sample_rate: %d'' [PInt (buf2u32 m (p_format + 12))],
       xil_printf ''    byte_rate: %d'' [PInt (buf2u32 m (p_format + 16))],
       xil_printf ''    block_align: %d'' [PInt (ucast (buf2u16 m (p_format + 20)))],
       xil_printf ''    bits_per_sample: %d'' [PInt (ucast (buf2u16 m (p_format + 22)))],
       xil_printf ''  data:'' [],
       xil_printf ''    fmt_chunk_marker: %s'' [PStr (c_string (buf2str m p_data 4))],
       xil_printf ''    data_chunk_size: %d'' [PInt (buf2u32 m (p_data + 4))]])"

text \<open>
  The reception at the head of \<^verbatim>\<open>recv_wav\<close>, from \<^verbatim>\<open>XUartLite_ResetFifos\<close> to the
  second \<^verbatim>\<open>uart_recv\<close>: the 12 bytes of the header (\<^verbatim>\<open>sizeof(Wav_HeaderRaw)\<close>), then
  \<^verbatim>\<open>var\<close> more bytes behind them.
\<close>

definition recv_wav_receive :: "hw \<Rightarrow> u32 \<Rightarrow> world \<Rightarrow> world option" where
  "recv_wav_receive h file w0 =
     (case uart_recv h file 12
             (emit (xil_printf ''Demo waiting for a WAV file...'' [])
                (emit XUartLite_ResetFifos w0)) of
        None \<Rightarrow> None
      | Some (n1, w1) \<Rightarrow>
          (let w2 = emit (xil_printf ''header received'' []) w1;
               var = recv_var (mem w2) file
           in case uart_recv h (file + 12) var w2 of
                None \<Rightarrow> None
              | Some (n2, w3) \<Rightarrow> Some w3))"

text \<open>
  \<^verbatim>\<open>void recv_wav(Demo *p_demo_inst, u8* file)\<close>: the check for \<^verbatim>\<open>NULL\<close>, the
  reception, the list of the fields, then \<^verbatim>\<open>play_wav\<close>.
\<close>

definition recv_wav :: "hw \<Rightarrow> u32 \<Rightarrow> world \<Rightarrow> world option" where
  "recv_wav h file w0 =
     (if file = 0
      then Some ((emit (xil_printf ''Memory fault'' []) w0)\<lparr>mode := DEMO_MODE_PAUSED\<rparr>)
      else
        (case recv_wav_receive h file w0 of
           None \<Rightarrow> None
         | Some w3 \<Rightarrow>
             (case play_wav h file (w3\<lparr>trace := trace w3 @ file_info (mem w3) file\<rparr>) of
                None \<Rightarrow> None
              | Some w4 \<Rightarrow> Some (emit (xil_printf ''Exiting receive mode'' []) w4))))"

section \<open>Software tone generator\<close>

text \<open>
  The variables of \<^verbatim>\<open>dma_sw_tone_gen\<close> that the sample loop writes: \<^verbatim>\<open>u8 temp[5]\<close>, the
  words \<^verbatim>\<open>((u32*)buffer)[k]\<close> and \<^verbatim>\<open>int i\<close> (which starts at 0 and only grows). The
  loop works on the array of the 32-bit words of the memory, indexed from the pointer
  \<^verbatim>\<open>buffer\<close>.
\<close>

record tone_vars =
  tg_temp :: "nat \<Rightarrow> u8"
  tg_buffer :: "nat \<Rightarrow> u32"
  tg_i :: nat

text \<open>
  The \<^verbatim>\<open>if (sample % 4 == 0) ... else if (sample % 4 == 3) { ... }\<close> chain of the loop
  body, for the value \<open>y\<close> that the conversion of \<^verbatim>\<open>Y\<close> to \<^verbatim>\<open>u8\<close> stores. The sums
  \<^verbatim>\<open>(temp[3]<<8) + temp[2]\<close> are computed on \<^verbatim>\<open>int\<close> and stored into 32-bit words.
\<close>

definition put_sample :: "u16 \<Rightarrow> u8 \<Rightarrow> tone_vars \<Rightarrow> tone_vars" where
  "put_sample sample y v =
     (if unat sample mod 4 = 0 then v\<lparr>tg_temp := (tg_temp v)(0 := y)\<rparr>
      else if unat sample mod 4 = 1 then v\<lparr>tg_temp := (tg_temp v)(1 := y)\<rparr>
      else if unat sample mod 4 = 2 then v\<lparr>tg_temp := (tg_temp v)(2 := y)\<rparr>
      else if unat sample mod 4 = 3 then
        (let t = (tg_temp v)(3 := y);
             b = (tg_buffer v)(tg_i v := word_of_int (push_bit 8 (uint (t 3)) + uint (t 2)));
             b' = b(tg_i v + 1 := word_of_int (push_bit 8 (uint (t 1)) + uint (t 0)))
         in v\<lparr>tg_temp := t, tg_buffer := b', tg_i := tg_i v + 2\<rparr>)
      else v)"

text \<open>
  \<^verbatim>\<open>for (u16 sample=0; sample < 256 && time < 48; sample++) { ...; time++; }\<close>. The
  \<^verbatim>\<open>float time\<close> starts at 0 and is incremented by 1: every value it takes is a small
  integer, which a \<^verbatim>\<open>float\<close> holds exactly, so it is a real number here. The sine
  formula and the conversion of the \<^verbatim>\<open>double Y\<close> to \<^verbatim>\<open>u8\<close> are floating-point
  computations of \<^verbatim>\<open>time\<close> alone; they are the parameter \<open>Y8\<close>. The function
  returns the loop variables at the exit.
\<close>

function tone_loop :: "(real \<Rightarrow> u8) \<Rightarrow> u16 \<Rightarrow> real \<Rightarrow> tone_vars \<Rightarrow> u16 \<times> real \<times> tone_vars" where
  "tone_loop Y8 sample time v =
     (if sample < 256 \<and> time < 48
      then tone_loop Y8 (sample + 1) (time + 1) (put_sample sample (Y8 time) v)
      else (sample, time, v))"
  by pat_completeness auto
termination
proof (relation "measure (\<lambda>(Y8, sample, time, v). 256 - unat sample)")
  show "wf (measure (\<lambda>(Y8, sample, time, v). 256 - unat sample))"
    by simp
next
  fix Y8 :: "real \<Rightarrow> u8" and sample :: u16 and time :: real and v :: tone_vars
  assume "sample < 256 \<and> time < 48"
  then have "unat sample < 256"
    by (simp add: word_less_nat_alt)
  moreover from this have "unat (sample + 1) = unat sample + 1"
    by (simp add: unat_word_ariths)
  ultimately show "((Y8, sample + 1, time + 1, put_sample sample (Y8 time) v), (Y8, sample, time, v))
        \<in> measure (\<lambda>(Y8, sample, time, v). 256 - unat sample)"
    by simp
qed

declare tone_loop.simps [simp del]

text \<open>
  The loop body run over a given sequence of stored sample values, from the sample
  counter \<open>sample\<close> on: what the loop does when its guard holds for every one of them.
\<close>

fun run_samples :: "u8 list \<Rightarrow> u16 \<Rightarrow> tone_vars \<Rightarrow> tone_vars" where
  "run_samples [] sample v = v"
| "run_samples (y # ys) sample v = run_samples ys (sample + 1) (put_sample sample y v)"

text \<open>The words that \<^verbatim>\<open>dma_send(p_demo_inst, buffer, i*4)\<close> hands to the DMA.\<close>

definition tone_words :: "tone_vars \<Rightarrow> u32 list" where
  "tone_words v = map (tg_buffer v) [0..<tg_i v]"

text \<open>
  The packing rule in the words of the specification: \<open>word0 = (s3<<8)|s2\<close>,
  \<open>word1 = (s1<<8)|s0\<close> for each group of four samples, and the reading of the samples
  back from two such words. These two are not taken from the source; the source's
  packing is \<open>put_sample\<close>.
\<close>

fun spec_pack :: "u8 list \<Rightarrow> u32 list" where
  "spec_pack (s0 # s1 # s2 # s3 # rest) =
     (push_bit 8 (ucast s3) OR ucast s2) # (push_bit 8 (ucast s1) OR ucast s0) # spec_pack rest"
| "spec_pack _ = []"

fun spec_unpack :: "u32 list \<Rightarrow> u8 list" where
  "spec_unpack (word0 # word1 # rest) =
     ucast word1 # ucast (drop_bit 8 word1) # ucast word0 # ucast (drop_bit 8 word0) # spec_unpack rest"
| "spec_unpack _ = []"

text \<open>
  The \<^verbatim>\<open>while (1)\<close> of \<^verbatim>\<open>dma_sw_tone_gen\<close>: send the buffer, sample the inputs, leave on a
  positive edge of any button.
\<close>

partial_function (option) tone_send_loop :: "hw \<Rightarrow> u32 \<Rightarrow> u32 \<Rightarrow> world \<Rightarrow> world option" where
  "tone_send_loop h buffer len w =
     (case dma_send h buffer len w of
        None \<Rightarrow> None
      | Some r \<Rightarrow>
          (if button_pe (fst (get_gpio_data h (snd r))) \<noteq> 0
           then Some (snd (get_gpio_data h (snd r)))
           else tone_send_loop h buffer len (snd (get_gpio_data h (snd r)))))"

text \<open>\<^verbatim>\<open>static const u32 buffer_size = 128\<close>, in words.\<close>

definition buffer_size :: nat where
  "buffer_size = 128"

text \<open>\<^verbatim>\<open>memset(p, c, n)\<close> on the memory: the \<open>n\<close> bytes from \<open>p\<close> on become \<open>c\<close>.\<close>

definition memset :: "(u32 \<Rightarrow> u8) \<Rightarrow> u32 \<Rightarrow> u8 \<Rightarrow> nat \<Rightarrow> (u32 \<Rightarrow> u8)" where
  "memset m p c n = (\<lambda>a. if unat (a - p) < n then c else m a)"

text \<open>
  The memory seen as the array \<^verbatim>\<open>(u32*)buffer\<close>, and back. Word \<open>k\<close> of the array is
  the four bytes at \<^verbatim>\<open>buffer + 4*k\<close>, low byte first; the byte at address \<open>a\<close> is byte
  \<open>(a - buffer) mod 4\<close> of word \<open>(a - buffer) div 4\<close>. Storing back the words that were
  loaded gives the memory that was there (\<open>store_load_u32_array\<close> below), so that a
  store into word \<open>k\<close> of the array changes the four bytes of that word and no other.
\<close>

definition load_u32_array :: "(u32 \<Rightarrow> u8) \<Rightarrow> u32 \<Rightarrow> (nat \<Rightarrow> u32)" where
  "load_u32_array m buffer = (\<lambda>k. buf2u32 m (buffer + 4 * of_nat k))"

definition store_u32_array :: "(nat \<Rightarrow> u32) \<Rightarrow> u32 \<Rightarrow> (u32 \<Rightarrow> u8)" where
  "store_u32_array ws buffer =
     (\<lambda>a. ucast (drop_bit (8 * (unat (a - buffer) mod 4)) (ws (unat (a - buffer) div 4))))"

text \<open>
  \<^verbatim>\<open>void dma_sw_tone_gen(Demo *p_demo_inst)\<close>, in three parts. The first is the function up
  to the end of the sample loop: \<^verbatim>\<open>malloc\<close>, \<^verbatim>\<open>memset\<close>, \<^verbatim>\<open>usleep\<close> and the loop, which
  works on the array of the words of the buffer. \<open>temp0\<close> is the content of the
  uninitialised \<^verbatim>\<open>temp\<close>. It gives the pointer \<^verbatim>\<open>buffer\<close>, the variables of the loop at
  its exit and the state with the buffer in memory.
\<close>

definition tone_gen_fill ::
    "hw \<Rightarrow> (real \<Rightarrow> u8) \<Rightarrow> (nat \<Rightarrow> u8) \<Rightarrow> world \<Rightarrow> u32 \<times> tone_vars \<times> world" where
  "tone_gen_fill h Y8 temp0 w0 =
     (let buffer = malloc_ret h (trace w0);
          w1 = (emit (malloc (of_nat (buffer_size * 4))) w0)
                 \<lparr>mem := memset (mem w0) buffer 0 (buffer_size * 4)\<rparr>;
          w2 = emit (usleep 10000) w1;
          v0 = \<lparr>tg_temp = temp0, tg_buffer = load_u32_array (mem w2) buffer, tg_i = 0\<rparr>;
          v = snd (snd (tone_loop Y8 0 0 v0))
      in (buffer, v, w2\<lparr>mem := store_u32_array (tg_buffer v) buffer\<rparr>))"

text \<open>
  The third part, behind the \<^verbatim>\<open>while (1)\<close>: the mode, the message, the second
  \<^verbatim>\<open>memset\<close>, the send of the cleared buffer, \<^verbatim>\<open>free\<close> and \<^verbatim>\<open>dma_reset\<close>.
\<close>

definition tone_gen_finish :: "hw \<Rightarrow> u32 \<Rightarrow> world \<Rightarrow> world option" where
  "tone_gen_finish h buffer w =
     (let w1 = emit (xil_printf ''Exiting SW tone gen mode'' []) (w\<lparr>mode := DEMO_MODE_PAUSED\<rparr>);
          w2 = w1\<lparr>mem := memset (mem w1) buffer 0 (buffer_size * 4)\<rparr>
      in case dma_send h buffer (of_nat (buffer_size * 4)) w2 of
           None \<Rightarrow> None
         | Some (status, w3) \<Rightarrow> dma_reset h (emit (free buffer) w3))"

text \<open>The whole function: the \<^verbatim>\<open>while (1)\<close> sends \<^verbatim>\<open>i*4\<close> bytes of the buffer.\<close>

definition dma_sw_tone_gen :: "hw \<Rightarrow> (real \<Rightarrow> u8) \<Rightarrow> (nat \<Rightarrow> u8) \<Rightarrow> world \<Rightarrow> world option" where
  "dma_sw_tone_gen h Y8 temp0 w0 =
     (case tone_gen_fill h Y8 temp0 w0 of
        (buffer, v, w) \<Rightarrow>
          (case tone_send_loop h buffer (of_nat (tg_i v * 4)) w of
             None \<Rightarrow> None
           | Some w' \<Rightarrow> tone_gen_finish h buffer w'))"

section \<open>One turn of the loop of main\<close>

text \<open>
  The body of the \<^verbatim>\<open>while (1)\<close> of \<^verbatim>\<open>main\<close>: sample the inputs, switch the mode on
  \<^verbatim>\<open>data.button_pe\<close>, run the action of the mode. \<open>file\<close> is the global pointer.
\<close>

definition main_iteration ::
    "hw \<Rightarrow> (real \<Rightarrow> u8) \<Rightarrow> (nat \<Rightarrow> u8) \<Rightarrow> u32 \<Rightarrow> world \<Rightarrow> world option" where
  "main_iteration h Y8 temp0 file w0 =
     (let data = fst (get_gpio_data h w0);
          w1 = mode_switch (button_pe data) (snd (get_gpio_data h w0))
      in case mode w1 of
           DEMO_MODE_PAUSED \<Rightarrow> Some w1
         | DEMO_MODE_HW_TONE_GEN \<Rightarrow> Some w1
         | DEMO_MODE_RECV_WAV_FILE \<Rightarrow> recv_wav h file w1
         | DEMO_MODE_PLAY_WAV_FILE \<Rightarrow> play_wav h file w1
         | DEMO_MODE_SW_TONE_GEN \<Rightarrow> dma_sw_tone_gen h Y8 temp0 w1)"

section \<open>Peripherals that answer\<close>

text \<open>
  The waits of the program have no timeout. They end when the peripheral answers:
  whatever has happened so far, after some number of polls the DMA channel is no longer
  busy and the reset is done, and after some number of calls the UART delivers a byte.
  These are properties of the peripherals, used as hypotheses.
\<close>

definition dma_responsive :: "hw \<Rightarrow> bool" where
  "dma_responsive h \<longleftrightarrow>
     (\<forall>t d. \<exists>n. Busy_ret h (t @ replicate n (XAxiDma_Busy d)) = 0) \<and>
     (\<forall>t. \<exists>n. ResetIsDone_ret h (t @ replicate n XAxiDma_ResetIsDone) \<noteq> 0)"

definition uart_responsive :: "hw \<Rightarrow> bool" where
  "uart_responsive h \<longleftrightarrow>
     (\<forall>t a. \<exists>n. UartLite_Recv_ret h (t @ replicate n (XUartLite_Recv a)) \<noteq> None)"

section \<open>Concrete inputs\<close>

definition gpio0 :: GpioIn_Data where
  "gpio0 = \<lparr>buttons = 0, switches = 0, button_pe = 0, button_ne = 0, switch_pe = 0, switch_ne = 0\<rparr>"

text \<open>The state in which \<^verbatim>\<open>main\<close> enters its loop: cleared memory, nothing done yet.\<close>

definition world0 :: world where
  "world0 = \<lparr>mode = DEMO_MODE_SW_TONE_GEN, last_gpio = gpio0, mem = (\<lambda>_. 0), trace = []\<rparr>"

text \<open>
  Peripherals that never fail and never make the program wait; \<open>0x4000\<close> is the value
  of \<^verbatim>\<open>XAXIDMA_IRQ_ERROR_MASK\<close> in the Xilinx driver.
\<close>

definition quiet_hw :: hw where
  "quiet_hw =
     \<lparr>SimpleTransfer_ret = (\<lambda>_. XST_SUCCESS), Busy_ret = (\<lambda>_. 0), ReadReg_SR_ret = (\<lambda>_. 0),
      ResetIsDone_ret = (\<lambda>_. 1), DiscreteRead_ret = (\<lambda>_. 0), UartLite_Recv_ret = (\<lambda>_. None),
      malloc_ret = (\<lambda>_. 0x90000000), XAXIDMA_IRQ_ERROR_MASK = 0x4000\<rparr>"

text \<open>The same, except that \<^verbatim>\<open>XAxiDma_SimpleTransfer\<close> refuses every transfer.\<close>

definition kickoff_fails_hw :: hw where
  "kickoff_fails_hw = quiet_hw\<lparr>SimpleTransfer_ret := (\<lambda>_. XST_FAILURE)\<rparr>"

text \<open>
  What \<^verbatim>\<open>play_wav\<close> leaves behind when it refuses to play: the two messages and the mode
  \<^verbatim>\<open>DEMO_MODE_PAUSED\<close>, nothing else.
\<close>

definition play_wav_refused :: "world \<Rightarrow> world" where
  "play_wav_refused w =
     w\<lparr>mode := DEMO_MODE_PAUSED,
       trace := trace w @ [xil_printf ''preparing for playback'' [],
                           xil_printf ''Must receive a WAV file to be able to play'' []]\<rparr>"

text \<open>
  A buffer at address \<open>0x1000\<close> whose first byte is \<open>R\<close> and whose format chunk
  declares the size \<open>0x800000\<close>, more than the whole buffer holds. Behind the buffer,
  where the data chunk header is then looked for, the memory holds the data size 2 and
  the sample \<open>0x4040\<close>.
\<close>

definition long_fmt_file :: u32 where
  "long_fmt_file = 0x1000"

definition long_fmt_world :: world where
  "long_fmt_world =
     world0\<lparr>mem := (\<lambda>_. 0)(0x1000 := 0x52, 0x1012 := 0x80, 0x801018 := 2,
                            0x80101C := 0x40, 0x80101D := 0x40)\<rparr>"

text \<open>A memory whose header at \<open>0x1000\<close> declares the overall size 44.\<close>

definition size44_mem :: "u32 \<Rightarrow> u8" where
  "size44_mem = (\<lambda>_. 0)(0x1000 := 0x52, 0x1004 := 44)"

text \<open>Tone generator variables with everything cleared.\<close>

definition tone_vars0 :: tone_vars where
  "tone_vars0 = \<lparr>tg_temp = (\<lambda>_. 0), tg_buffer = (\<lambda>_. 0), tg_i = 0\<rparr>"

text \<open>Quiet peripherals on which every read of the inputs returns \<open>b\<close>.\<close>

definition inputs_hw :: "u32 \<Rightarrow> hw" where
  "inputs_hw b = quiet_hw\<lparr>DiscreteRead_ret := (\<lambda>_. b)\<rparr>"

text \<open>
  A WAV file of 52 bytes: mono, 16 bits, 96000 samples per second, with the four samples
  0, -32768, 32767 and 16384. Its header declares the overall size 44. The peripherals
  \<open>wav_file_hw\<close> are quiet, and their UART delivers one byte of the file at every call
  of \<^verbatim>\<open>XUartLite_Recv\<close>, and zero bytes behind the file.
\<close>

definition wav_file :: "u8 list" where
  "wav_file =
     [0x52, 0x49, 0x46, 0x46,  0x2C, 0x00, 0x00, 0x00,  0x57, 0x41, 0x56, 0x45,
      0x66, 0x6D, 0x74, 0x20,  0x10, 0x00, 0x00, 0x00,  0x01, 0x00,  0x01, 0x00,
      0x00, 0x77, 0x01, 0x00,  0x00, 0xEE, 0x02, 0x00,  0x02, 0x00,  0x10, 0x00,
      0x64, 0x61, 0x74, 0x61,  0x08, 0x00, 0x00, 0x00,
      0x00, 0x00,  0x00, 0x80,  0xFF, 0x7F,  0x00, 0x40]"

definition is_uart_recv :: "event \<Rightarrow> bool" where
  "is_uart_recv e = (case e of XUartLite_Recv a \<Rightarrow> True | _ \<Rightarrow> False)"

definition wav_file_hw :: hw where
  "wav_file_hw =
     quiet_hw\<lparr>UartLite_Recv_ret :=
       (\<lambda>t. if length (filter is_uart_recv t) < length wav_file
            then Some (wav_file ! length (filter is_uart_recv t)) else Some 0)\<rparr>"

section \<open>Auxiliary facts\<close>

lemma emit_simps:
  "mem (emit e w) = mem w" "mode (emit e w) = mode w" "last_gpio (emit e w) = last_gpio w"
  "trace (emit e w) = trace w @ [e]"
  by (simp_all add: emit_def)

subsection \<open>Bytes and words\<close>

lemma pack_int: "push_bit 8 (uint (a::u8)) + uint (b::u8) = push_bit 8 (uint a) OR uint b"
  by (rule disjunctive_add) (auto simp add: bit_simps dest: bit_imp_le_length)

lemma pack_word:
  "(word_of_int (push_bit 8 (uint (a::u8)) + uint (b::u8)) :: u32) = push_bit 8 (ucast a) OR ucast b"
  unfolding pack_int
  by (rule bit_word_eqI) (auto simp add: bit_simps)

lemma pack_word':
  "(word_of_int (push_bit 8 (uint (a::u8))) :: u32) + ucast (b::u8) = push_bit 8 (ucast a) OR ucast b"
  using pack_word [of a b] by simp

lemma unpack0: "(ucast (push_bit 8 (ucast (a::u8)) OR (ucast (b::u8)) :: u32) :: u8) = b"
  by (rule bit_word_eqI) (auto simp add: bit_simps dest: bit_imp_le_length)

lemma unpack1:
  "(ucast (drop_bit 8 (push_bit 8 (ucast (a::u8)) OR (ucast (b::u8)) :: u32)) :: u8) = a"
  by (rule bit_word_eqI) (auto simp add: bit_simps dest: bit_imp_le_length)

lemma unpack1':
  "(ucast (drop_bit 8 (push_bit 8 (ucast (a::u8)) :: u32) OR drop_bit 8 (ucast (b::u8))) :: u8) = a"
  using unpack1 [of a b] by (simp add: drop_bit_or)

lemma upper0: "drop_bit 16 (push_bit 8 (ucast (a::u8)) OR (ucast (b::u8)) :: u32) = 0"
  by (rule bit_word_eqI) (auto simp add: bit_simps dest: bit_imp_le_length)

lemma upper0':
  "drop_bit 16 (push_bit 8 (ucast (a::u8)) :: u32) OR drop_bit 16 (ucast (b::u8)) = 0"
  using upper0 [of a b] by (simp add: drop_bit_or)

lemma uint_buf2u32:
  "uint (buf2u32 m p) =
     uint (m p) + 256 * uint (m (p + 1)) + 65536 * uint (m (p + 2)) + 16777216 * uint (m (p + 3))"
proof -
  let ?a = "uint (m p)" and ?b = "uint (m (p + 1))"
  let ?c = "uint (m (p + 2))" and ?d = "uint (m (p + 3))"
  have 1: "push_bit 8 ?b + ?a = push_bit 8 ?b OR ?a"
    by (rule disjunctive_add) (auto simp add: bit_simps dest: bit_imp_le_length)
  have 2: "push_bit 16 ?c + (push_bit 8 ?b OR ?a) = push_bit 16 ?c OR (push_bit 8 ?b OR ?a)"
    by (rule disjunctive_add) (auto simp add: bit_simps dest: bit_imp_le_length)
  have 3: "push_bit 24 ?d + (push_bit 16 ?c OR (push_bit 8 ?b OR ?a)) =
      push_bit 24 ?d OR (push_bit 16 ?c OR (push_bit 8 ?b OR ?a))"
    by (rule disjunctive_add) (auto simp add: bit_simps dest: bit_imp_le_length)
  have e: "push_bit 24 ?d OR (push_bit 16 ?c OR (push_bit 8 ?b OR ?a)) =
      ?a + 256 * ?b + 65536 * ?c + 16777216 * ?d"
  proof -
    have "push_bit 24 ?d OR (push_bit 16 ?c OR (push_bit 8 ?b OR ?a)) =
        push_bit 24 ?d + (push_bit 16 ?c OR (push_bit 8 ?b OR ?a))"
      by (rule 3 [symmetric])
    also have "\<dots> = push_bit 24 ?d + (push_bit 16 ?c + (push_bit 8 ?b OR ?a))"
      by (simp only: 2 [symmetric])
    also have "\<dots> = push_bit 24 ?d + (push_bit 16 ?c + (push_bit 8 ?b + ?a))"
      by (simp only: 1 [symmetric])
    also have "\<dots> = ?a + 256 * ?b + 65536 * ?c + 16777216 * ?d"
      by (simp add: push_bit_eq_mult)
    finally show ?thesis .
  qed
  have "buf2u32 m p = word_of_int (push_bit 24 ?d OR (push_bit 16 ?c OR (push_bit 8 ?b OR ?a)))"
    unfolding buf2u32_def
    by (rule bit_word_eqI) (auto simp add: bit_simps)
  also have "\<dots> = word_of_int (?a + 256 * ?b + 65536 * ?c + 16777216 * ?d)"
    by (simp only: e)
  finally have w: "buf2u32 m p = word_of_int (?a + 256 * ?b + 65536 * ?c + 16777216 * ?d)" .
  have "uint (buf2u32 m p) = (?a + 256 * ?b + 65536 * ?c + 16777216 * ?d) mod 2 ^ LENGTH(32)"
    unfolding w by (rule uint_word_of_int)
  moreover have "?a < 256" "?b < 256" "?c < 256" "?d < 256" "0 \<le> ?a" "0 \<le> ?b" "0 \<le> ?c" "0 \<le> ?d"
    using uint_lt2p [of "m p"] uint_lt2p [of "m (p + 1)"] uint_lt2p [of "m (p + 2)"]
      uint_lt2p [of "m (p + 3)"]
    by simp_all
  ultimately show ?thesis
    by simp
qed

lemma uint_add_32768: "uint (word_of_int (uint (x::u16) + 32768) :: u16) = (uint x + 32768) mod 65536"
  by (simp add: uint_word_ariths)

lemma sint_add_32768: "(sint (x::u16) + 32768) mod 65536 = (uint x + 32768) mod 65536"
proof -
  have "uint (word_of_int (sint x) :: u16) = sint x mod 2 ^ LENGTH(16)"
    by (rule uint_word_of_int)
  then have "uint x = sint x mod 65536"
    by simp
  then have "sint x mod 65536 = uint x mod 65536"
    by simp
  then show ?thesis
    by (metis mod_add_left_eq)
qed

subsection \<open>Busy waiting and the transfers\<close>

lemma wait_while_busy_Some:
  assumes "wait_while_busy h d w = Some w'"
  shows "\<exists>n. w' = w\<lparr>trace := trace w @ replicate (Suc n) (XAxiDma_Busy d)\<rparr>"
proof (rule wait_while_busy.raw_induct
    [where P = "\<lambda>h d w w'. \<exists>n. w' = w\<lparr>trace := trace w @ replicate (Suc n) (XAxiDma_Busy d)\<rparr>",
      OF _ assms])
  fix wwb :: "hw \<Rightarrow> direction \<Rightarrow> world \<Rightarrow> world option" and h d w w'
  assume IH: "\<And>h d w w'. wwb h d w = Some w' \<Longrightarrow>
      \<exists>n. w' = w\<lparr>trace := trace w @ replicate (Suc n) (XAxiDma_Busy d)\<rparr>"
    and step: "(if Busy_ret h (trace w) \<noteq> 0 then wwb h d (emit (XAxiDma_Busy d) w)
      else Some (emit (XAxiDma_Busy d) w)) = Some w'"
  show "\<exists>n. w' = w\<lparr>trace := trace w @ replicate (Suc n) (XAxiDma_Busy d)\<rparr>"
  proof (cases "Busy_ret h (trace w) \<noteq> 0")
    case True
    with step have "wwb h d (emit (XAxiDma_Busy d) w) = Some w'"
      by simp
    from IH [OF this] obtain n where
      "w' = (emit (XAxiDma_Busy d) w)\<lparr>trace := trace (emit (XAxiDma_Busy d) w) @ replicate (Suc n) (XAxiDma_Busy d)\<rparr>"
      by blast
    then have "w' = w\<lparr>trace := trace w @ replicate (Suc (Suc n)) (XAxiDma_Busy d)\<rparr>"
      by (simp add: emit_def)
    then show ?thesis
      by blast
  next
    case False
    with step have "w' = w\<lparr>trace := trace w @ replicate (Suc 0) (XAxiDma_Busy d)\<rparr>"
      by (simp add: emit_def)
    then show ?thesis
      by blast
  qed
qed

lemma wait_reset_done_Some:
  assumes "wait_reset_done h w = Some w'"
  shows "\<exists>n. w' = w\<lparr>trace := trace w @ replicate (Suc n) XAxiDma_ResetIsDone\<rparr>"
proof (rule wait_reset_done.raw_induct
    [where P = "\<lambda>h w w'. \<exists>n. w' = w\<lparr>trace := trace w @ replicate (Suc n) XAxiDma_ResetIsDone\<rparr>",
      OF _ assms])
  fix wrd :: "hw \<Rightarrow> world \<Rightarrow> world option" and h w w'
  assume IH: "\<And>h w w'. wrd h w = Some w' \<Longrightarrow>
      \<exists>n. w' = w\<lparr>trace := trace w @ replicate (Suc n) XAxiDma_ResetIsDone\<rparr>"
    and step: "(if ResetIsDone_ret h (trace w) = 0 then wrd h (emit XAxiDma_ResetIsDone w)
      else Some (emit XAxiDma_ResetIsDone w)) = Some w'"
  show "\<exists>n. w' = w\<lparr>trace := trace w @ replicate (Suc n) XAxiDma_ResetIsDone\<rparr>"
  proof (cases "ResetIsDone_ret h (trace w) = 0")
    case True
    with step have "wrd h (emit XAxiDma_ResetIsDone w) = Some w'"
      by simp
    from IH [OF this] obtain n where
      "w' = (emit XAxiDma_ResetIsDone w)\<lparr>trace := trace (emit XAxiDma_ResetIsDone w) @ replicate (Suc n) XAxiDma_ResetIsDone\<rparr>"
      by blast
    then have "w' = w\<lparr>trace := trace w @ replicate (Suc (Suc n)) XAxiDma_ResetIsDone\<rparr>"
      by (simp add: emit_def)
    then show ?thesis
      by blast
  next
    case False
    with step have "w' = w\<lparr>trace := trace w @ replicate (Suc 0) XAxiDma_ResetIsDone\<rparr>"
      by (simp add: emit_def)
    then show ?thesis
      by blast
  qed
qed

lemma dma_reset_Some:
  assumes "dma_reset h w = Some w'"
  shows "\<exists>n. w' = w\<lparr>trace := trace w @ XAxiDma_Reset # replicate (Suc n) XAxiDma_ResetIsDone\<rparr>"
proof -
  from assms obtain n where
    "w' = (emit XAxiDma_Reset w)\<lparr>trace := trace (emit XAxiDma_Reset w) @ replicate (Suc n) XAxiDma_ResetIsDone\<rparr>"
    unfolding dma_reset_def by (blast dest: wait_reset_done_Some)
  then have "w' = w\<lparr>trace := trace w @ XAxiDma_Reset # replicate (Suc n) XAxiDma_ResetIsDone\<rparr>"
    by (simp add: emit_def)
  then show ?thesis
    by blast
qed

text \<open>The three ways in which \<^verbatim>\<open>dma_receive\<close> returns.\<close>

lemma dma_receive_Some:
  assumes "dma_receive h b l w = Some (st, w')"
  shows "(SimpleTransfer_ret h (trace w @ [Xil_DCacheFlushRange b l]) \<noteq> XST_SUCCESS \<and>
          st = XST_FAILURE \<and>
          w' = w\<lparr>trace := trace w @ [Xil_DCacheFlushRange b l,
                  XAxiDma_SimpleTransfer b l XAXIDMA_DEVICE_TO_DMA,
                  xil_printf ''ERROR: failed to kick off S2MM transfer'' []]\<rparr>)
       \<or> (SimpleTransfer_ret h (trace w @ [Xil_DCacheFlushRange b l]) = XST_SUCCESS \<and>
          (\<exists>n. let t = trace w @ Xil_DCacheFlushRange b l #
                         XAxiDma_SimpleTransfer b l XAXIDMA_DEVICE_TO_DMA #
                         replicate (Suc n) (XAxiDma_Busy XAXIDMA_DEVICE_TO_DMA)
               in if ReadReg_SR_ret h t AND XAXIDMA_IRQ_ERROR_MASK h \<noteq> 0
                  then st = XST_FAILURE \<and>
                       w' = w\<lparr>trace := t @ [XAxiDma_ReadReg_SR XAXIDMA_DEVICE_TO_DMA,
                               xil_printf ''ERROR: AXI DMA returned an error during the S2MM transfer'' []]\<rparr>
                  else st = XST_SUCCESS \<and>
                       w' = w\<lparr>trace := t @ [XAxiDma_ReadReg_SR XAXIDMA_DEVICE_TO_DMA,
                               Xil_DCacheFlushRange b l]\<rparr>))"
proof (cases "SimpleTransfer_ret h (trace w @ [Xil_DCacheFlushRange b l]) = XST_SUCCESS")
  case False
  with assms show ?thesis
    by (simp add: dma_receive_def emit_def Let_def)
next
  case True
  let ?w2 = "w\<lparr>trace := trace w @ [Xil_DCacheFlushRange b l, XAxiDma_SimpleTransfer b l XAXIDMA_DEVICE_TO_DMA]\<rparr>"
  from assms True obtain w3 where w3: "wait_while_busy h XAXIDMA_DEVICE_TO_DMA ?w2 = Some w3"
    by (auto simp add: dma_receive_def emit_def Let_def split: option.splits)
  from wait_while_busy_Some [OF w3] obtain n where
    n: "w3 = w\<lparr>trace := trace w @ Xil_DCacheFlushRange b l #
                         XAxiDma_SimpleTransfer b l XAXIDMA_DEVICE_TO_DMA #
                         replicate (Suc n) (XAxiDma_Busy XAXIDMA_DEVICE_TO_DMA)\<rparr>"
    by auto
  show ?thesis
  proof (cases "ReadReg_SR_ret h (trace w3) AND XAXIDMA_IRQ_ERROR_MASK h \<noteq> 0")
    case err: True
    with assms True w3 have "st = XST_FAILURE"
      "w' = w3\<lparr>trace := trace w3 @ [XAxiDma_ReadReg_SR XAXIDMA_DEVICE_TO_DMA,
              xil_printf ''ERROR: AXI DMA returned an error during the S2MM transfer'' []]\<rparr>"
      by (auto simp add: dma_receive_def emit_def Let_def)
    with True n err show ?thesis
      by (auto simp add: Let_def intro!: exI [of _ n])
  next
    case ok: False
    with assms True w3 have "st = XST_SUCCESS"
      "w' = w3\<lparr>trace := trace w3 @ [XAxiDma_ReadReg_SR XAXIDMA_DEVICE_TO_DMA,
              Xil_DCacheFlushRange b l]\<rparr>"
      by (auto simp add: dma_receive_def emit_def Let_def)
    with True n ok show ?thesis
      by (auto simp add: Let_def intro!: exI [of _ n])
  qed
qed


text \<open>
  The two ways in which \<^verbatim>\<open>dma_send\<close> returns: the status follows the error flag alone,
  and the second flush goes with the status \<^verbatim>\<open>XST_SUCCESS\<close>.
\<close>

lemma dma_send_Some:
  assumes "dma_send h b l w = Some (st, w')"
  shows "\<exists>n. let t = trace w @ Xil_DCacheFlushRange b l #
                     XAxiDma_SimpleTransfer b l XAXIDMA_DMA_TO_DEVICE #
                     (if SimpleTransfer_ret h (trace w @ [Xil_DCacheFlushRange b l]) \<noteq> XST_SUCCESS
                      then [xil_printf ''ERROR: failed to kick off MM2S transfer'' []] else []) @
                     replicate (Suc n) (XAxiDma_Busy XAXIDMA_DMA_TO_DEVICE)
             in if ReadReg_SR_ret h t AND XAXIDMA_IRQ_ERROR_MASK h \<noteq> 0
                then st = XST_FAILURE \<and>
                     w' = w\<lparr>trace := t @ [XAxiDma_ReadReg_SR XAXIDMA_DMA_TO_DEVICE,
                             xil_printf ''ERROR: AXI DMA returned an error during the MM2S transfer'' []]\<rparr>
                else st = XST_SUCCESS \<and>
                     w' = w\<lparr>trace := t @ [XAxiDma_ReadReg_SR XAXIDMA_DMA_TO_DEVICE,
                             Xil_DCacheFlushRange b l]\<rparr>"
proof -
  let ?pre = "trace w @ Xil_DCacheFlushRange b l # XAxiDma_SimpleTransfer b l XAXIDMA_DMA_TO_DEVICE #
      (if SimpleTransfer_ret h (trace w @ [Xil_DCacheFlushRange b l]) \<noteq> XST_SUCCESS
       then [xil_printf ''ERROR: failed to kick off MM2S transfer'' []] else [])"
  from assms obtain w3 where w3: "wait_while_busy h XAXIDMA_DMA_TO_DEVICE (w\<lparr>trace := ?pre\<rparr>) = Some w3"
    by (auto simp add: dma_send_def emit_def Let_def split: option.splits if_splits)
  from wait_while_busy_Some [OF w3] obtain n where
    n: "w3 = w\<lparr>trace := ?pre @ replicate (Suc n) (XAxiDma_Busy XAXIDMA_DMA_TO_DEVICE)\<rparr>"
    by auto
  show ?thesis
  proof (cases "ReadReg_SR_ret h (trace w3) AND XAXIDMA_IRQ_ERROR_MASK h \<noteq> 0")
    case err: True
    with assms w3 have "st = XST_FAILURE"
      "w' = w3\<lparr>trace := trace w3 @ [XAxiDma_ReadReg_SR XAXIDMA_DMA_TO_DEVICE,
              xil_printf ''ERROR: AXI DMA returned an error during the MM2S transfer'' []]\<rparr>"
      by (auto simp add: dma_send_def emit_def Let_def split: if_splits)
    with n err show ?thesis
      by (auto simp add: Let_def intro!: exI [of _ n])
  next
    case ok: False
    with assms w3 have "st = XST_SUCCESS"
      "w' = w3\<lparr>trace := trace w3 @ [XAxiDma_ReadReg_SR XAXIDMA_DMA_TO_DEVICE,
              Xil_DCacheFlushRange b l]\<rparr>"
      by (auto simp add: dma_send_def emit_def Let_def split: if_splits)
    with n ok show ?thesis
      by (auto simp add: Let_def intro!: exI [of _ n])
  qed
qed

lemma dma_send_trace:
  assumes "dma_send h b l w = Some (st, w')"
  shows "\<exists>es. w' = w\<lparr>trace := trace w @ es\<rparr>"
proof -
  from dma_send_Some [OF assms] obtain n where
    "let t = trace w @ Xil_DCacheFlushRange b l #
                     XAxiDma_SimpleTransfer b l XAXIDMA_DMA_TO_DEVICE #
                     (if SimpleTransfer_ret h (trace w @ [Xil_DCacheFlushRange b l]) \<noteq> XST_SUCCESS
                      then [xil_printf ''ERROR: failed to kick off MM2S transfer'' []] else []) @
                     replicate (Suc n) (XAxiDma_Busy XAXIDMA_DMA_TO_DEVICE)
             in if ReadReg_SR_ret h t AND XAXIDMA_IRQ_ERROR_MASK h \<noteq> 0
                then st = XST_FAILURE \<and>
                     w' = w\<lparr>trace := t @ [XAxiDma_ReadReg_SR XAXIDMA_DMA_TO_DEVICE,
                             xil_printf ''ERROR: AXI DMA returned an error during the MM2S transfer'' []]\<rparr>
                else st = XST_SUCCESS \<and>
                     w' = w\<lparr>trace := t @ [XAxiDma_ReadReg_SR XAXIDMA_DMA_TO_DEVICE,
                             Xil_DCacheFlushRange b l]\<rparr>"
    by blast
  then show ?thesis
    unfolding Let_def by (metis append.assoc)
qed

lemma play_wav_played:
  assumes "mem w file \<noteq> 0" and "play_wav h file w = Some w'"
  shows "\<exists>es. w' = w\<lparr>mode := DEMO_MODE_PAUSED,
            mem := downscale_loop (wav_data_of (mem w) file)
                     (malloc_ret h (trace w @ [xil_printf ''preparing for playback'' []]))
                     (buf2u32 (mem w) (p_data_of (mem w) file + 4) div 2) 0 (mem w),
            trace := trace w @ xil_printf ''preparing for playback'' [] #
                       malloc (buf2u32 (mem w) (p_data_of (mem w) file + 4) div 2) # es\<rparr>"
proof -
  let ?len = "buf2u32 (mem w) (p_data_of (mem w) file + 4) div 2"
  let ?dma_data = "malloc_ret h (trace w @ [xil_printf ''preparing for playback'' []])"
  let ?w2 = "emit (malloc ?len) (emit (xil_printf ''preparing for playback'' []) w)"
  let ?w3 = "?w2\<lparr>mem := downscale_loop (wav_data_of (mem w) file) ?dma_data ?len 0 (mem w)\<rparr>"
  from assms obtain st w4 w5 where
    s: "dma_send h ?dma_data ?len ?w3 = Some (st, w4)" and
    r: "dma_reset h (emit (free ?dma_data) (emit (sleep 2) (emit (xil_printf ''sleep for a while'' []) w4))) = Some w5" and
    w': "w' = emit (xil_printf ''Exiting play mode'' []) (w5\<lparr>mode := DEMO_MODE_PAUSED\<rparr>)"
    by (auto simp add: play_wav_def emit_simps Let_def split: option.splits)
  from dma_send_trace [OF s] obtain es where es: "w4 = ?w3\<lparr>trace := trace ?w3 @ es\<rparr>"
    by blast
  from dma_reset_Some [OF r] obtain n where
    n: "w5 = (emit (free ?dma_data) (emit (sleep 2) (emit (xil_printf ''sleep for a while'' []) w4)))
          \<lparr>trace := trace (emit (free ?dma_data) (emit (sleep 2) (emit (xil_printf ''sleep for a while'' []) w4)))
             @ XAxiDma_Reset # replicate (Suc n) XAxiDma_ResetIsDone\<rparr>"
    by blast
  have "w' = w\<lparr>mode := DEMO_MODE_PAUSED,
            mem := downscale_loop (wav_data_of (mem w) file) ?dma_data ?len 0 (mem w),
            trace := trace w @ xil_printf ''preparing for playback'' [] # malloc ?len #
              (es @ [xil_printf ''sleep for a while'' [], sleep 2, free ?dma_data] @
               XAxiDma_Reset # replicate (Suc n) XAxiDma_ResetIsDone @ [xil_printf ''Exiting play mode'' []])\<rparr>"
    unfolding w' n es by (simp add: emit_def)
  then show ?thesis
    by blast
qed

text \<open>\<^verbatim>\<open>uart_recv\<close> returns, when it returns, with the count that was asked for.\<close>

lemma uart_recv_loop_count:
  assumes "uart_recv_loop h buffer len received_count w = Some (n, w')" and "received_count \<le> len"
  shows "n = len"
proof -
  have "received_count \<le> len \<longrightarrow> fst (n, w') = len"
  proof (rule uart_recv_loop.raw_induct
      [where P = "\<lambda>h buffer len received_count w r. received_count \<le> len \<longrightarrow> fst r = len",
        OF _ assms(1)])
    fix url :: "hw \<Rightarrow> u32 \<Rightarrow> u32 \<Rightarrow> u32 \<Rightarrow> world \<Rightarrow> (u32 \<times> world) option"
      and h buffer len received_count w r
    assume IH: "\<And>h buffer len received_count w r.
        url h buffer len received_count w = Some r \<Longrightarrow> received_count \<le> len \<longrightarrow> fst r = len"
      and step: "(if received_count < len
        then (case UartLite_Recv_ret h (trace w) of
                None \<Rightarrow> url h buffer len received_count
                          (emit (XUartLite_Recv (buffer + received_count)) w)
              | Some b \<Rightarrow> url h buffer len (received_count + 1)
                          (emit (XUartLite_Recv (buffer + received_count))
                             (w\<lparr>mem := (mem w)(buffer + received_count := b)\<rparr>)))
        else Some (received_count, w)) = Some r"
    show "received_count \<le> len \<longrightarrow> fst r = len"
    proof (cases "received_count < len")
      case True
      then have "received_count + 1 \<le> len"
        by (simp add: inc_le)
      with True step IH show ?thesis
        by (auto split: option.splits)
    next
      case False
      with step show ?thesis
        by auto
    qed
  qed
  with assms(2) show ?thesis
    by simp
qed

lemma uart_recv_count: "uart_recv h buffer len w = Some (n, w') \<Longrightarrow> n = len"
  unfolding uart_recv_def by (erule uart_recv_loop_count) simp

subsection \<open>The waits end when the peripherals answer\<close>

lemma wait_while_busy_returns:
  assumes "Busy_ret h (trace w @ replicate n (XAxiDma_Busy d)) = 0"
  shows "wait_while_busy h d w \<noteq> None"
  using assms
proof (induction n arbitrary: w)
  case 0
  then show ?case
    by (subst wait_while_busy.simps) simp
next
  case (Suc n)
  show ?case
  proof (cases "Busy_ret h (trace w) = 0")
    case True
    then show ?thesis
      by (subst wait_while_busy.simps) simp
  next
    case False
    have "trace (emit (XAxiDma_Busy d) w) @ replicate n (XAxiDma_Busy d) =
        trace w @ replicate (Suc n) (XAxiDma_Busy d)"
      by (simp add: emit_def)
    with Suc.prems have "wait_while_busy h d (emit (XAxiDma_Busy d) w) \<noteq> None"
      by (intro Suc.IH) simp
    with False show ?thesis
      by (subst wait_while_busy.simps) simp
  qed
qed

lemma wait_reset_done_returns:
  assumes "ResetIsDone_ret h (trace w @ replicate n XAxiDma_ResetIsDone) \<noteq> 0"
  shows "wait_reset_done h w \<noteq> None"
  using assms
proof (induction n arbitrary: w)
  case 0
  then show ?case
    by (subst wait_reset_done.simps) simp
next
  case (Suc n)
  show ?case
  proof (cases "ResetIsDone_ret h (trace w) = 0")
    case False
    then show ?thesis
      by (subst wait_reset_done.simps) simp
  next
    case True
    have "trace (emit XAxiDma_ResetIsDone w) @ replicate n XAxiDma_ResetIsDone =
        trace w @ replicate (Suc n) XAxiDma_ResetIsDone"
      by (simp add: emit_def)
    with Suc.prems have "wait_reset_done h (emit XAxiDma_ResetIsDone w) \<noteq> None"
      by (intro Suc.IH) simp
    with True show ?thesis
      by (subst wait_reset_done.simps) simp
  qed
qed

lemma dma_responsive_busy: "dma_responsive h \<Longrightarrow> wait_while_busy h d w \<noteq> None"
  unfolding dma_responsive_def by (metis wait_while_busy_returns)

lemma dma_responsive_reset: "dma_responsive h \<Longrightarrow> wait_reset_done h w \<noteq> None"
  unfolding dma_responsive_def by (metis wait_reset_done_returns)

lemma dma_send_returns: "dma_responsive h \<Longrightarrow> dma_send h b l w \<noteq> None"
  by (auto simp add: dma_send_def Let_def dma_responsive_busy split: option.splits)

lemma dma_reset_returns: "dma_responsive h \<Longrightarrow> dma_reset h w \<noteq> None"
  by (simp add: dma_reset_def dma_responsive_reset)

lemma dma_send_total:
  assumes "dma_responsive h"
  shows "\<exists>st es. dma_send h b l w =
     Some (st, w\<lparr>trace := trace w @ Xil_DCacheFlushRange b l #
                      XAxiDma_SimpleTransfer b l XAXIDMA_DMA_TO_DEVICE # es\<rparr>)"
proof -
  from dma_send_returns [OF assms, of b l w] obtain st w' where s: "dma_send h b l w = Some (st, w')"
    by auto
  from dma_send_Some [OF s] obtain es where
    "w' = w\<lparr>trace := trace w @ Xil_DCacheFlushRange b l #
                      XAxiDma_SimpleTransfer b l XAXIDMA_DMA_TO_DEVICE # es\<rparr>"
    unfolding Let_def by (metis append_Cons append_assoc)
  with s show ?thesis
    by blast
qed

lemma play_wav_returns: "dma_responsive h \<Longrightarrow> play_wav h file w \<noteq> None"
  by (auto simp add: play_wav_def Let_def dma_send_returns dma_reset_returns split: option.splits)

lemma play_wav_total:
  assumes "dma_responsive h" and "mem w file \<noteq> 0"
  shows "\<exists>es. play_wav h file w =
     Some (w\<lparr>mode := DEMO_MODE_PAUSED,
             mem := downscale_loop (wav_data_of (mem w) file)
                      (malloc_ret h (trace w @ [xil_printf ''preparing for playback'' []]))
                      (buf2u32 (mem w) (p_data_of (mem w) file + 4) div 2) 0 (mem w),
             trace := trace w @ xil_printf ''preparing for playback'' [] #
                        malloc (buf2u32 (mem w) (p_data_of (mem w) file + 4) div 2) #
                        Xil_DCacheFlushRange
                          (malloc_ret h (trace w @ [xil_printf ''preparing for playback'' []]))
                          (buf2u32 (mem w) (p_data_of (mem w) file + 4) div 2) #
                        XAxiDma_SimpleTransfer
                          (malloc_ret h (trace w @ [xil_printf ''preparing for playback'' []]))
                          (buf2u32 (mem w) (p_data_of (mem w) file + 4) div 2)
                          XAXIDMA_DMA_TO_DEVICE # es\<rparr>)"
proof -
  let ?len = "buf2u32 (mem w) (p_data_of (mem w) file + 4) div 2"
  let ?dma_data = "malloc_ret h (trace w @ [xil_printf ''preparing for playback'' []])"
  let ?w2 = "emit (malloc ?len) (emit (xil_printf ''preparing for playback'' []) w)"
  let ?w3 = "?w2\<lparr>mem := downscale_loop (wav_data_of (mem w) file) ?dma_data ?len 0 (mem w)\<rparr>"
  from dma_send_total [OF assms(1), of ?dma_data ?len ?w3] obtain st es where
    s: "dma_send h ?dma_data ?len ?w3 =
      Some (st, ?w3\<lparr>trace := trace ?w3 @ Xil_DCacheFlushRange ?dma_data ?len #
                      XAxiDma_SimpleTransfer ?dma_data ?len XAXIDMA_DMA_TO_DEVICE # es\<rparr>)"
    by blast
  let ?w4 = "?w3\<lparr>trace := trace ?w3 @ Xil_DCacheFlushRange ?dma_data ?len #
                      XAxiDma_SimpleTransfer ?dma_data ?len XAXIDMA_DMA_TO_DEVICE # es\<rparr>"
  let ?w4' = "emit (free ?dma_data) (emit (sleep 2) (emit (xil_printf ''sleep for a while'' []) ?w4))"
  from dma_reset_returns [OF assms(1), of ?w4'] obtain w5 where r: "dma_reset h ?w4' = Some w5"
    by auto
  from dma_reset_Some [OF r] obtain n where
    n: "w5 = ?w4'\<lparr>trace := trace ?w4' @ XAxiDma_Reset # replicate (Suc n) XAxiDma_ResetIsDone\<rparr>"
    by blast
  have "play_wav h file w = Some (emit (xil_printf ''Exiting play mode'' []) (w5\<lparr>mode := DEMO_MODE_PAUSED\<rparr>))"
    using assms(2) s r by (simp add: play_wav_def Let_def emit_simps)
  also have "emit (xil_printf ''Exiting play mode'' []) (w5\<lparr>mode := DEMO_MODE_PAUSED\<rparr>) =
      w\<lparr>mode := DEMO_MODE_PAUSED,
        mem := downscale_loop (wav_data_of (mem w) file) ?dma_data ?len 0 (mem w),
        trace := trace w @ xil_printf ''preparing for playback'' [] # malloc ?len #
          Xil_DCacheFlushRange ?dma_data ?len #
          XAxiDma_SimpleTransfer ?dma_data ?len XAXIDMA_DMA_TO_DEVICE #
          (es @ [xil_printf ''sleep for a while'' [], sleep 2, free ?dma_data] @
             XAxiDma_Reset # replicate (Suc n) XAxiDma_ResetIsDone @
             [xil_printf ''Exiting play mode'' []])\<rparr>"
    unfolding n by (simp add: emit_def)
  finally show ?thesis
    by blast
qed

lemma uart_recv_loop_wait:
  assumes next_byte: "\<And>w. uart_recv_loop h buffer len (received_count + 1) w \<noteq> None"
    and "received_count < len"
    and "UartLite_Recv_ret h (trace w @ replicate n (XUartLite_Recv (buffer + received_count))) \<noteq> None"
  shows "uart_recv_loop h buffer len received_count w \<noteq> None"
  using assms(3)
proof (induction n arbitrary: w)
  case 0
  then obtain b where "UartLite_Recv_ret h (trace w) = Some b"
    by auto
  with assms(2) next_byte show ?case
    by (subst uart_recv_loop.simps) simp
next
  case (Suc n)
  show ?case
  proof (cases "UartLite_Recv_ret h (trace w)")
    case (Some b)
    with assms(2) next_byte show ?thesis
      by (subst uart_recv_loop.simps) simp
  next
    case None
    have "trace (emit (XUartLite_Recv (buffer + received_count)) w) @
          replicate n (XUartLite_Recv (buffer + received_count)) =
        trace w @ replicate (Suc n) (XUartLite_Recv (buffer + received_count))"
      by (simp add: emit_def)
    with Suc.prems
    have "uart_recv_loop h buffer len received_count (emit (XUartLite_Recv (buffer + received_count)) w) \<noteq> None"
      by (intro Suc.IH) simp
    with None assms(2) show ?thesis
      by (subst uart_recv_loop.simps) simp
  qed
qed

lemma uart_recv_loop_returns:
  assumes "uart_responsive h"
  shows "uart_recv_loop h buffer len received_count w \<noteq> None"
proof (induction "unat len - unat received_count" arbitrary: received_count w rule: less_induct)
  case less
  show ?case
  proof (cases "received_count < len")
    case False
    then show ?thesis
      by (subst uart_recv_loop.simps) simp
  next
    case True
    then have u: "unat received_count < unat len"
      by (simp add: word_less_nat_alt)
    have "unat len < 2 ^ 32"
      using unsigned_less [of len, where 'a = nat] by simp
    with u have "unat (received_count + 1) = Suc (unat received_count)"
      by (simp add: unat_word_ariths)
    with u have "unat len - unat (received_count + 1) < unat len - unat received_count"
      by simp
    then have next_byte: "\<And>w. uart_recv_loop h buffer len (received_count + 1) w \<noteq> None"
      by (rule less.hyps)
    from assms obtain n where
      "UartLite_Recv_ret h (trace w @ replicate n (XUartLite_Recv (buffer + received_count))) \<noteq> None"
      unfolding uart_responsive_def by blast
    with next_byte True show ?thesis
      by (rule uart_recv_loop_wait)
  qed
qed

lemma uart_recv_returns: "uart_responsive h \<Longrightarrow> uart_recv h buffer len w \<noteq> None"
  by (simp add: uart_recv_def uart_recv_loop_returns)

lemma recv_wav_receive_returns: "uart_responsive h \<Longrightarrow> recv_wav_receive h file w \<noteq> None"
  by (auto simp add: recv_wav_receive_def Let_def uart_recv_returns split: option.splits)

lemma recv_wav_total:
  assumes "dma_responsive h" and "uart_responsive h" and "file \<noteq> 0"
  shows "\<exists>w3 w4. recv_wav_receive h file w = Some w3 \<and>
           play_wav h file (w3\<lparr>trace := trace w3 @ file_info (mem w3) file\<rparr>) = Some w4 \<and>
           recv_wav h file w = Some (emit (xil_printf ''Exiting receive mode'' []) w4)"
proof -
  from recv_wav_receive_returns [OF assms(2)] obtain w3 where
    r: "recv_wav_receive h file w = Some w3"
    by auto
  from play_wav_returns [OF assms(1)]
  obtain w4 where p: "play_wav h file (w3\<lparr>trace := trace w3 @ file_info (mem w3) file\<rparr>) = Some w4"
    by auto
  from assms(3) r p have "recv_wav h file w = Some (emit (xil_printf ''Exiting receive mode'' []) w4)"
    by (simp add: recv_wav_def)
  with r p show ?thesis
    by blast
qed

lemma file_info_data:
  "drop 15 (file_info m file) =
     [xil_printf ''    fmt_chunk_marker: %s''
        [PStr (c_string (buf2str m (file + (12 + 8 + buf2u32 m (file + 16))) 4))],
      xil_printf ''    data_chunk_size: %d''
        [PInt (buf2u32 m (file + (12 + 8 + buf2u32 m (file + 16)) + 4))]]"
  by (simp add: file_info_def Let_def p_data_of_def p_format_of_def add.assoc)

subsection \<open>The buffer of the tone generator in memory\<close>

lemma buf2u32_byte:
  assumes "j < 4"
  shows "(ucast (drop_bit (8 * j) (buf2u32 m q)) :: u8) = m (q + of_nat j)"
proof -
  from assms consider "j = 0" | "j = 1" | "j = 2" | "j = 3"
    by linarith
  then show ?thesis
  proof cases
    case 1
    then show ?thesis
      unfolding buf2u32_def
      by simp (rule bit_word_eqI, auto simp add: bit_simps dest: bit_imp_le_length)
  next
    case 2
    then show ?thesis
      unfolding buf2u32_def
      by simp (rule bit_word_eqI, auto simp add: bit_simps dest: bit_imp_le_length)
  next
    case 3
    then show ?thesis
      unfolding buf2u32_def
      by simp (rule bit_word_eqI, auto simp add: bit_simps dest: bit_imp_le_length)
  next
    case 4
    then show ?thesis
      unfolding buf2u32_def
      by simp (rule bit_word_eqI, auto simp add: bit_simps dest: bit_imp_le_length)
  qed
qed

lemma store_load_u32_array: "store_u32_array (load_u32_array m buffer) buffer = m"
proof
  fix a
  let ?d = "unat (a - buffer)"
  have "(4 * of_nat (?d div 4) + of_nat (?d mod 4) :: u32) = of_nat (4 * (?d div 4) + ?d mod 4)"
    by (simp only: of_nat_add of_nat_mult of_nat_numeral)
  also have "\<dots> = a - buffer"
    by simp
  finally have "buffer + 4 * of_nat (?d div 4) + of_nat (?d mod 4) = a"
    by (simp only: add.assoc) simp
  then show "store_u32_array (load_u32_array m buffer) buffer a = m a"
    by (simp add: store_u32_array_def load_u32_array_def buf2u32_byte)
qed

lemma u32_of_bytes:
  "push_bit 24 (ucast (ucast (drop_bit 24 x) :: u8)) OR push_bit 16 (ucast (ucast (drop_bit 16 x) :: u8))
     OR push_bit 8 (ucast (ucast (drop_bit 8 x) :: u8)) OR ucast (ucast x :: u8) = (x :: u32)"
proof (rule bit_word_eqI)
  fix n :: nat
  assume "n < LENGTH(32)"
  then have "n < 32" by simp
  then consider "n < 8" | "8 \<le> n" "n < 16" | "16 \<le> n" "n < 24" | "24 \<le> n" "n < 32"
    by linarith
  then show "bit (push_bit 24 (ucast (ucast (drop_bit 24 x) :: u8)) OR push_bit 16 (ucast (ucast (drop_bit 16 x) :: u8))
     OR push_bit 8 (ucast (ucast (drop_bit 8 x) :: u8)) OR ucast (ucast x :: u8) :: u32) n = bit x n"
    by cases (auto simp add: bit_simps)
qed

lemma store_u32_array_at:
  assumes "k < 2 ^ 30" and "j < 4"
  shows "store_u32_array ws buffer (buffer + 4 * of_nat k + of_nat j) = ucast (drop_bit (8 * j) (ws k))"
proof -
  have "(buffer + 4 * of_nat k + of_nat j) - buffer = (of_nat (4 * k + j) :: u32)"
    by simp
  moreover have "4 * k + j < 2 ^ 32"
    using assms by simp
  ultimately have "unat ((buffer + 4 * of_nat k + of_nat j) - buffer) = 4 * k + j"
    by (simp only: unat_of_nat) simp
  with assms(2) show ?thesis
    by (simp add: store_u32_array_def)
qed

lemma load_store_u32_array:
  assumes "k < 2 ^ 30"
  shows "load_u32_array (store_u32_array ws buffer) buffer k = ws k"
proof -
  have "store_u32_array ws buffer (buffer + 4 * of_nat k) = ucast (ws k)"
    using store_u32_array_at [OF assms, of 0 ws buffer] by simp
  moreover have "store_u32_array ws buffer (buffer + 4 * of_nat k + 1) = ucast (drop_bit 8 (ws k))"
    using store_u32_array_at [OF assms, of 1 ws buffer] by simp
  moreover have "store_u32_array ws buffer (buffer + 4 * of_nat k + 2) = ucast (drop_bit 16 (ws k))"
    using store_u32_array_at [OF assms, of 2 ws buffer] by simp
  moreover have "store_u32_array ws buffer (buffer + 4 * of_nat k + 3) = ucast (drop_bit 24 (ws k))"
    using store_u32_array_at [OF assms, of 3 ws buffer] by simp
  ultimately show ?thesis
    unfolding load_u32_array_def buf2u32_def by (simp only: u32_of_bytes)
qed

subsection \<open>The sample loop of the tone generator\<close>

lemma unat_add_mod4: "unat ((s::u16) + of_nat k) mod 4 = (unat s + k) mod 4"
proof -
  have "unat (s + of_nat k) = (unat s + k mod 65536) mod 65536"
    by (simp add: unat_word_ariths unat_of_nat)
  also have "\<dots> = (unat s + k) mod 65536"
    by (simp add: mod_add_right_eq)
  finally have "unat (s + of_nat k) mod 4 = (unat s + k) mod 65536 mod 4"
    by simp
  moreover have "(4::nat) dvd 65536"
    by simp
  ultimately show ?thesis
    by (simp add: mod_mod_cancel)
qed

lemma unat_add_mod4_aligned:
  assumes "unat (s::u16) mod 4 = 0" "k < 4"
  shows "unat (s + of_nat k) mod 4 = k"
proof -
  have "(unat s + k) mod 4 = (unat s mod 4 + k) mod 4"
    by (simp add: mod_add_left_eq)
  then show ?thesis
    using assms by (simp add: unat_add_mod4)
qed

lemma put_sample_0: "unat sample mod 4 = 0 \<Longrightarrow> put_sample sample y v = v\<lparr>tg_temp := (tg_temp v)(0 := y)\<rparr>"
  by (simp add: put_sample_def)

lemma put_sample_1: "unat sample mod 4 = 1 \<Longrightarrow> put_sample sample y v = v\<lparr>tg_temp := (tg_temp v)(1 := y)\<rparr>"
  by (simp add: put_sample_def)

lemma put_sample_2: "unat sample mod 4 = 2 \<Longrightarrow> put_sample sample y v = v\<lparr>tg_temp := (tg_temp v)(2 := y)\<rparr>"
  by (simp add: put_sample_def)

lemma put_sample_3: "unat sample mod 4 = 3 \<Longrightarrow> put_sample sample y v =
   v\<lparr>tg_temp := (tg_temp v)(3 := y),
     tg_buffer := (tg_buffer v)(tg_i v := push_bit 8 (ucast y) OR ucast (tg_temp v 2),
                                tg_i v + 1 := push_bit 8 (ucast (tg_temp v 1)) OR ucast (tg_temp v 0)),
     tg_i := tg_i v + 2\<rparr>"
  by (simp add: put_sample_def pack_word' Let_def)

lemma put_sample_buffer_i:
  "unat sample mod 4 \<noteq> 3 \<Longrightarrow> tg_buffer (put_sample sample y v) = tg_buffer v \<and> tg_i (put_sample sample y v) = tg_i v"
  by (simp add: put_sample_def)

lemma run_group:
  assumes "unat sample mod 4 = 0"
  shows "run_samples (s0 # s1 # s2 # s3 # rest) sample v =
     run_samples rest (sample + 4)
       (v\<lparr>tg_temp := (tg_temp v)(0 := s0, 1 := s1, 2 := s2, 3 := s3),
          tg_buffer := (tg_buffer v)(tg_i v := push_bit 8 (ucast s3) OR ucast s2,
                                     tg_i v + 1 := push_bit 8 (ucast s1) OR ucast s0),
          tg_i := tg_i v + 2\<rparr>)"
proof -
  have m1: "unat (sample + 1) mod 4 = 1"
    using unat_add_mod4_aligned [of sample 1] assms by simp
  have m2: "unat (2 + sample) mod 4 = 2"
    using unat_add_mod4_aligned [of sample 2] assms by (simp add: add.commute)
  have m3: "unat (3 + sample) mod 4 = 3"
    using unat_add_mod4_aligned [of sample 3] assms by (simp add: add.commute)
  show ?thesis
    using assms m1 m2 m3
    by (simp add: put_sample_0 put_sample_1 put_sample_2 put_sample_3 add.commute [of sample 4])
qed

lemma run_short:
  assumes "unat sample mod 4 = 0" "length ys < 4"
  shows "tg_buffer (run_samples ys sample v) = tg_buffer v \<and> tg_i (run_samples ys sample v) = tg_i v"
proof -
  have m1: "unat (sample + 1) mod 4 = 1"
    using unat_add_mod4_aligned [of sample 1] assms by simp
  have m2: "unat (2 + sample) mod 4 = 2"
    using unat_add_mod4_aligned [of sample 2] assms by (simp add: add.commute)
  consider "ys = []" | a where "ys = [a]" | a b where "ys = [a, b]" | a b c where "ys = [a, b, c]"
    using assms(2) by (cases ys rule: spec_pack.cases) auto
  then show ?thesis
    using assms m1 m2
    by cases (simp_all add: put_sample_0 put_sample_1 put_sample_2)
qed


lemma run_samples_char:
  "unat sample mod 4 = 0 \<Longrightarrow>
     tg_i (run_samples ys sample v) = tg_i v + length (spec_pack ys) \<and>
     tg_buffer (run_samples ys sample v) =
       (\<lambda>k. if tg_i v \<le> k \<and> k < tg_i v + length (spec_pack ys)
            then spec_pack ys ! (k - tg_i v) else tg_buffer v k)"
proof (induction ys arbitrary: sample v rule: spec_pack.induct)
  case (1 s0 s1 s2 s3 rest)
  let ?v = "v\<lparr>tg_temp := (tg_temp v)(0 := s0, 1 := s1, 2 := s2, 3 := s3),
          tg_buffer := (tg_buffer v)(tg_i v := push_bit 8 (ucast s3) OR ucast s2,
                                     tg_i v + 1 := push_bit 8 (ucast s1) OR ucast s0),
          tg_i := tg_i v + 2\<rparr>"
  have al: "unat (sample + 4) mod 4 = 0"
    using unat_add_mod4 [of sample 4] "1.prems" by simp
  have step: "run_samples (s0 # s1 # s2 # s3 # rest) sample v = run_samples rest (sample + 4) ?v"
    by (rule run_group [OF "1.prems"])
  note ih = "1.IH" [OF al, of ?v]
  have i: "tg_i (run_samples (s0 # s1 # s2 # s3 # rest) sample v) =
      tg_i v + length (spec_pack (s0 # s1 # s2 # s3 # rest))"
    unfolding step using ih by simp
  have b: "tg_buffer (run_samples (s0 # s1 # s2 # s3 # rest) sample v) k =
      (if tg_i v \<le> k \<and> k < tg_i v + length (spec_pack (s0 # s1 # s2 # s3 # rest))
       then spec_pack (s0 # s1 # s2 # s3 # rest) ! (k - tg_i v) else tg_buffer v k)" for k
  proof -
    consider "k < tg_i v" | "k = tg_i v" | "k = tg_i v + 1" | "tg_i v + 2 \<le> k"
      by linarith
    then show ?thesis
    proof cases
      case 1
      then show ?thesis unfolding step using ih by simp
    next
      case 2
      then show ?thesis unfolding step using ih by simp
    next
      case 3
      then show ?thesis unfolding step using ih by simp
    next
      case 4
      then have "k - tg_i v = Suc (Suc (k - (tg_i v + 2)))"
        by simp
      then show ?thesis unfolding step using ih 4 by auto
    qed
  qed
  show ?case
    using i b by blast
qed (auto simp add: run_short fun_eq_iff simp del: run_samples.simps)

lemma tone_words_run:
  assumes "tg_i v = 0"
  shows "tone_words (run_samples ys 0 v) = spec_pack ys"
proof -
  have "unat (0::u16) mod 4 = 0"
    by simp
  from run_samples_char [OF this, of ys v] assms
  have "tone_words (run_samples ys 0 v) = map (\<lambda>k. spec_pack ys ! k) [0..<length (spec_pack ys)]"
    by (simp add: tone_words_def)
  then show ?thesis
    by (simp add: map_nth)
qed

lemma spec_unpack_pack: "length ys mod 4 = 0 \<Longrightarrow> spec_unpack (spec_pack ys) = ys"
  by (induction ys rule: spec_pack.induct) (simp_all add: unpack0 unpack1')

lemma length_spec_pack: "length (spec_pack ys) = 2 * (length ys div 4)"
  by (induction ys rule: spec_pack.induct) simp_all

lemma spec_pack_take: "spec_pack (take (4 * (length ys div 4)) ys) = spec_pack ys"
proof (induction ys rule: spec_pack.induct)
  case (1 s0 s1 s2 s3 rest)
  have "4 * (length (s0 # s1 # s2 # s3 # rest) div 4) = Suc (Suc (Suc (Suc (4 * (length rest div 4)))))"
    by simp
  then show ?case
    using 1 by (simp only: take_Suc_Cons spec_pack.simps)
qed simp_all

lemma spec_pack_upper: "w \<in> set (spec_pack ys) \<Longrightarrow> drop_bit 16 w = 0"
  by (induction ys rule: spec_pack.induct) (auto simp add: upper0')

lemma tone_loop_from:
  "n \<le> 48 \<Longrightarrow> tone_loop Y8 (of_nat n) (real n) v =
     (48, 48, run_samples (map (\<lambda>m. Y8 (real m)) [n..<48]) (of_nat n) v)"
proof (induction "48 - n" arbitrary: n v)
  case 0
  then have "n = 48" by simp
  then show ?case by (simp add: tone_loop.simps)
next
  case (Suc d)
  then have n: "n < 48" by simp
  then have u: "unat (of_nat n :: u16) = n"
    by (simp add: unat_of_nat)
  have g: "(of_nat n :: u16) < 256"
    using n u by (simp add: word_less_nat_alt)
  have d: "d = 48 - Suc n" "Suc n \<le> 48"
    using Suc.hyps(2) n by simp_all
  have "tone_loop Y8 (of_nat n) (real n) v =
      tone_loop Y8 (of_nat (Suc n)) (real (Suc n)) (put_sample (of_nat n) (Y8 (real n)) v)"
    using g n by (subst tone_loop.simps) (simp add: add.commute)
  also have "\<dots> = (48, 48, run_samples (map (\<lambda>m. Y8 (real m)) [Suc n..<48]) (of_nat (Suc n))
      (put_sample (of_nat n) (Y8 (real n)) v))"
    by (rule Suc.hyps(1) [OF d])
  also have "\<dots> = (48, 48, run_samples (map (\<lambda>m. Y8 (real m)) [n..<48]) (of_nat n) v)"
    using n by (simp add: upt_conv_Cons add.commute)
  finally show ?case .
qed

lemma tone_loop_i:
  assumes "tg_i v = 0"
  shows "tg_i (snd (snd (tone_loop Y8 0 0 v))) = 24"
proof -
  have "unat (0::u16) mod 4 = 0"
    by simp
  from run_samples_char [OF this, of "map (\<lambda>n. Y8 (real n)) [0..<48]" v] assms
  show ?thesis
    using tone_loop_from [of 0 Y8 v] by (simp add: length_spec_pack)
qed

lemma tone_send_length:
  "tg_i v = 0 \<Longrightarrow> (of_nat (tg_i (snd (snd (tone_loop Y8 0 0 v))) * 4) :: u32) = 96"
  by (simp add: tone_loop_i)

lemma tone_loop_words:
  "tg_i v = 0 \<Longrightarrow>
     tone_words (snd (snd (tone_loop Y8 0 0 v))) = spec_pack (map (\<lambda>n. Y8 (real n)) [0..<48])"
  using tone_loop_from [of 0 Y8 v] by (simp add: tone_words_run)

subsection \<open>The tone generator as a whole\<close>

lemma tone_gen_fill_simps:
  "fst (tone_gen_fill h Y8 temp0 w0) = malloc_ret h (trace w0)"
  "tg_i (fst (snd (tone_gen_fill h Y8 temp0 w0))) = 24"
  "trace (snd (snd (tone_gen_fill h Y8 temp0 w0))) = trace w0 @ [malloc 512, usleep 10000]"
  "mode (snd (snd (tone_gen_fill h Y8 temp0 w0))) = mode w0"
  "last_gpio (snd (snd (tone_gen_fill h Y8 temp0 w0))) = last_gpio w0"
  by (simp_all add: tone_gen_fill_def Let_def tone_loop_i emit_def buffer_size_def)

lemma tone_gen_fill_words:
  "map (load_u32_array (mem (snd (snd (tone_gen_fill h Y8 temp0 w0)))) (fst (tone_gen_fill h Y8 temp0 w0)))
       [0..<tg_i (fst (snd (tone_gen_fill h Y8 temp0 w0)))] =
     spec_pack (map (\<lambda>n. Y8 (real n)) [0..<48])"
proof -
  let ?init = "\<lparr>tg_temp = temp0,
      tg_buffer = load_u32_array (memset (mem w0) (malloc_ret h (trace w0)) 0 (buffer_size * 4))
                    (malloc_ret h (trace w0)),
      tg_i = 0\<rparr>"
  let ?v = "snd (snd (tone_loop Y8 0 0 ?init))"
  have i: "tg_i ?v = 24"
    by (simp add: tone_loop_i)
  have "map (load_u32_array (store_u32_array (tg_buffer ?v) (malloc_ret h (trace w0))) (malloc_ret h (trace w0)))
          [0..<tg_i ?v] = map (tg_buffer ?v) [0..<tg_i ?v]"
    unfolding i by (rule map_cong) (simp_all add: load_store_u32_array)
  also have "\<dots> = spec_pack (map (\<lambda>n. Y8 (real n)) [0..<48])"
    using tone_loop_words [of ?init Y8] by (simp add: tone_words_def)
  finally show ?thesis
    by (simp add: tone_gen_fill_def Let_def emit_def)
qed

lemma tone_send_loop_once:
  assumes "dma_responsive h"
    and edge: "\<forall>t. (ucast (DiscreteRead_ret h t) :: u8) AND NOT (buttons (last_gpio w)) \<noteq> 0"
  shows "\<exists>g es. tone_send_loop h buffer len w =
     Some (w\<lparr>last_gpio := g,
             trace := trace w @ Xil_DCacheFlushRange buffer len #
                        XAxiDma_SimpleTransfer buffer len XAXIDMA_DMA_TO_DEVICE # es\<rparr>)"
proof -
  from dma_send_total [OF assms(1), of buffer len w] obtain st es where
    s: "dma_send h buffer len w =
      Some (st, w\<lparr>trace := trace w @ Xil_DCacheFlushRange buffer len #
                      XAxiDma_SimpleTransfer buffer len XAXIDMA_DMA_TO_DEVICE # es\<rparr>)"
    by blast
  let ?w' = "w\<lparr>trace := trace w @ Xil_DCacheFlushRange buffer len #
                      XAxiDma_SimpleTransfer buffer len XAXIDMA_DMA_TO_DEVICE # es\<rparr>"
  have pe: "button_pe (fst (get_gpio_data h ?w')) \<noteq> 0"
    using edge by (simp add: get_gpio_data_def Let_def emit_def)
  have "tone_send_loop h buffer len w = Some (snd (get_gpio_data h ?w'))"
    using s pe by (subst tone_send_loop.simps) simp
  also have "snd (get_gpio_data h ?w') =
      w\<lparr>last_gpio := fst (get_gpio_data h ?w'),
        trace := trace w @ Xil_DCacheFlushRange buffer len #
                   XAxiDma_SimpleTransfer buffer len XAXIDMA_DMA_TO_DEVICE #
                   (es @ [XGpio_DiscreteRead 1, XGpio_DiscreteRead 2])\<rparr>"
    by (simp add: get_gpio_data_def Let_def emit_def)
  finally show ?thesis
    by blast
qed

lemma tone_gen_finish_total:
  assumes "dma_responsive h"
  shows "\<exists>es. tone_gen_finish h buffer w =
     Some (w\<lparr>mode := DEMO_MODE_PAUSED,
             mem := memset (mem w) buffer 0 (buffer_size * 4),
             trace := trace w @ xil_printf ''Exiting SW tone gen mode'' [] # es\<rparr>)"
proof -
  let ?w2 = "(emit (xil_printf ''Exiting SW tone gen mode'' []) (w\<lparr>mode := DEMO_MODE_PAUSED\<rparr>))
               \<lparr>mem := memset (mem w) buffer 0 (buffer_size * 4)\<rparr>"
  from dma_send_total [OF assms, of buffer "of_nat (buffer_size * 4)" ?w2] obtain st es where
    s: "dma_send h buffer (of_nat (buffer_size * 4)) ?w2 =
      Some (st, ?w2\<lparr>trace := trace ?w2 @ Xil_DCacheFlushRange buffer (of_nat (buffer_size * 4)) #
              XAxiDma_SimpleTransfer buffer (of_nat (buffer_size * 4)) XAXIDMA_DMA_TO_DEVICE # es\<rparr>)"
    by blast
  let ?w3 = "?w2\<lparr>trace := trace ?w2 @ Xil_DCacheFlushRange buffer (of_nat (buffer_size * 4)) #
              XAxiDma_SimpleTransfer buffer (of_nat (buffer_size * 4)) XAXIDMA_DMA_TO_DEVICE # es\<rparr>"
  from dma_reset_returns [OF assms] obtain w4 where r: "dma_reset h (emit (free buffer) ?w3) = Some w4"
    by auto
  from dma_reset_Some [OF r] obtain n where
    n: "w4 = (emit (free buffer) ?w3)\<lparr>trace := trace (emit (free buffer) ?w3) @
           XAxiDma_Reset # replicate (Suc n) XAxiDma_ResetIsDone\<rparr>"
    by blast
  have "tone_gen_finish h buffer w = Some w4"
    using s r by (simp add: tone_gen_finish_def Let_def emit_simps)
  also have "w4 = w\<lparr>mode := DEMO_MODE_PAUSED,
             mem := memset (mem w) buffer 0 (buffer_size * 4),
             trace := trace w @ xil_printf ''Exiting SW tone gen mode'' [] #
               (Xil_DCacheFlushRange buffer (of_nat (buffer_size * 4)) #
                XAxiDma_SimpleTransfer buffer (of_nat (buffer_size * 4)) XAXIDMA_DMA_TO_DEVICE # es @
                free buffer # XAxiDma_Reset # replicate (Suc n) XAxiDma_ResetIsDone)\<rparr>"
    unfolding n by (simp add: emit_def)
  finally show ?thesis
    by blast
qed

lemma dma_sw_tone_gen_sends:
  "dma_sw_tone_gen h Y8 temp0 w0 =
     (case tone_gen_fill h Y8 temp0 w0 of
        (buffer, v, w) \<Rightarrow>
          (case dma_send h buffer 96 w of
             None \<Rightarrow> None
           | Some r \<Rightarrow>
               (if button_pe (fst (get_gpio_data h (snd r))) \<noteq> 0
                then tone_gen_finish h buffer (snd (get_gpio_data h (snd r)))
                else (case tone_send_loop h buffer 96 (snd (get_gpio_data h (snd r))) of
                        None \<Rightarrow> None
                      | Some w' \<Rightarrow> tone_gen_finish h buffer w'))))"
proof -
  obtain buffer v w where f: "tone_gen_fill h Y8 temp0 w0 = (buffer, v, w)"
    by (metis prod_cases3)
  with tone_gen_fill_simps(2) [of h Y8 temp0 w0] have "tg_i v = 24"
    by simp
  then have "(of_nat (tg_i v * 4) :: u32) = 96"
    by simp
  then show ?thesis
    unfolding dma_sw_tone_gen_def f
    by (simp add: tone_send_loop.simps [of h buffer 96 w] split: option.splits)
qed

lemma dma_sw_tone_gen_total:
  assumes "dma_responsive h"
    and edge: "\<forall>t. (ucast (DiscreteRead_ret h t) :: u8) AND NOT (buttons (last_gpio w0)) \<noteq> 0"
  shows "\<exists>w' es. dma_sw_tone_gen h Y8 temp0 w0 = Some w' \<and> mode w' = DEMO_MODE_PAUSED \<and>
     trace w' = trace w0 @ malloc 512 # usleep 10000 #
                  Xil_DCacheFlushRange (malloc_ret h (trace w0)) 96 #
                  XAxiDma_SimpleTransfer (malloc_ret h (trace w0)) 96 XAXIDMA_DMA_TO_DEVICE # es"
proof -
  obtain buffer v w where f: "tone_gen_fill h Y8 temp0 w0 = (buffer, v, w)"
    by (metis prod_cases3)
  with tone_gen_fill_simps [of h Y8 temp0 w0] have
    b: "buffer = malloc_ret h (trace w0)" and i: "tg_i v = 24"
    and t: "trace w = trace w0 @ [malloc 512, usleep 10000]" and l: "last_gpio w = last_gpio w0"
    by simp_all
  from i have len: "(of_nat (tg_i v * 4) :: u32) = 96"
    by simp
  from edge l have "\<forall>t. (ucast (DiscreteRead_ret h t) :: u8) AND NOT (buttons (last_gpio w)) \<noteq> 0"
    by simp
  from tone_send_loop_once [OF assms(1) this, of buffer 96] obtain g es where
    s: "tone_send_loop h buffer 96 w =
      Some (w\<lparr>last_gpio := g,
             trace := trace w @ Xil_DCacheFlushRange buffer 96 #
                        XAxiDma_SimpleTransfer buffer 96 XAXIDMA_DMA_TO_DEVICE # es\<rparr>)"
    by blast
  let ?w = "w\<lparr>last_gpio := g,
             trace := trace w @ Xil_DCacheFlushRange buffer 96 #
                        XAxiDma_SimpleTransfer buffer 96 XAXIDMA_DMA_TO_DEVICE # es\<rparr>"
  from tone_gen_finish_total [OF assms(1), of buffer ?w] obtain es' where
    e: "tone_gen_finish h buffer ?w =
      Some (?w\<lparr>mode := DEMO_MODE_PAUSED,
             mem := memset (mem ?w) buffer 0 (buffer_size * 4),
             trace := trace ?w @ xil_printf ''Exiting SW tone gen mode'' [] # es'\<rparr>)"
    by blast
  have "dma_sw_tone_gen h Y8 temp0 w0 =
      Some (?w\<lparr>mode := DEMO_MODE_PAUSED,
             mem := memset (mem ?w) buffer 0 (buffer_size * 4),
             trace := trace ?w @ xil_printf ''Exiting SW tone gen mode'' [] # es'\<rparr>)"
    unfolding dma_sw_tone_gen_def f using len s e by simp
  then show ?thesis
    using t b by auto
qed

section \<open>DMA transfers: the claims\<close>

text \<open>
  C1. The send operation returns \<^verbatim>\<open>XST_FAILURE\<close> whenever the call that starts the
  transfer signals failure, and whenever the error flag is set after the transfer; it
  returns success only when neither happens. \<^verbatim>\<open>dma_send\<close> does not do the first: with
  peripherals that refuse the transfer (\<^verbatim>\<open>XAxiDma_SimpleTransfer\<close> returns
  \<^verbatim>\<open>XST_FAILURE\<close>) and show no error bit in the status register, it returns
  \<^verbatim>\<open>XST_SUCCESS\<close>; \<^verbatim>\<open>dma_receive\<close> returns \<^verbatim>\<open>XST_FAILURE\<close> on the same input.
\<close>

theorem dma_send_kickoff_failure_reported_as_success:
  "SimpleTransfer_ret kickoff_fails_hw (trace world0 @ [Xil_DCacheFlushRange 0x1000 96]) = XST_FAILURE
   \<and> ReadReg_SR_ret kickoff_fails_hw
         (trace world0 @ [Xil_DCacheFlushRange 0x1000 96,
            XAxiDma_SimpleTransfer 0x1000 96 XAXIDMA_DMA_TO_DEVICE,
            xil_printf ''ERROR: failed to kick off MM2S transfer'' [],
            XAxiDma_Busy XAXIDMA_DMA_TO_DEVICE])
       AND XAXIDMA_IRQ_ERROR_MASK kickoff_fails_hw = 0
   \<and> map_option fst (dma_send kickoff_fails_hw 0x1000 96 world0) = Some XST_SUCCESS
   \<and> map_option fst (dma_receive kickoff_fails_hw 0x1000 96 world0) = Some XST_FAILURE"
  by (simp add: dma_send_def dma_receive_def kickoff_fails_hw_def quiet_hw_def world0_def emit_def
      wait_while_busy.simps)

text \<open>
  C3. In send and receive the range is flushed before the transfer is started; after a
  successful transfer it is flushed a second time; on the error paths (the start failed,
  or the error flag is set) the operation returns without the second flush. On the input
  of C1, \<^verbatim>\<open>dma_send\<close> does not return after the failed start: it polls, reads the status
  register and flushes a second time; \<^verbatim>\<open>dma_receive\<close> stops after the message.
\<close>

theorem dma_send_kickoff_failure_second_flush:
  "map_option (trace \<circ> snd) (dma_send kickoff_fails_hw 0x1000 96 world0) =
     Some [Xil_DCacheFlushRange 0x1000 96,
           XAxiDma_SimpleTransfer 0x1000 96 XAXIDMA_DMA_TO_DEVICE,
           xil_printf ''ERROR: failed to kick off MM2S transfer'' [],
           XAxiDma_Busy XAXIDMA_DMA_TO_DEVICE,
           XAxiDma_ReadReg_SR XAXIDMA_DMA_TO_DEVICE,
           Xil_DCacheFlushRange 0x1000 96]
   \<and> map_option (trace \<circ> snd) (dma_receive kickoff_fails_hw 0x1000 96 world0) =
     Some [Xil_DCacheFlushRange 0x1000 96,
           XAxiDma_SimpleTransfer 0x1000 96 XAXIDMA_DEVICE_TO_DMA,
           xil_printf ''ERROR: failed to kick off S2MM transfer'' []]"
  by (simp add: dma_send_def dma_receive_def kickoff_fails_hw_def quiet_hw_def world0_def emit_def
      wait_while_busy.simps)

section \<open>WAV decoding: the claims\<close>

text \<open>
  C5. The conversion from 16 to 8 bits is the function that adds 32768 to the signed
  16-bit sample, with 16-bit wrap-around, and takes the upper 8 bits of the 16-bit
  result: 0 gives 128, -32768 gives 0 and 32767 gives 255.
\<close>

theorem downscale_bias_shift:
  "uint (downscale x) = ((sint x + 32768) mod 65536) div 256
   \<and> downscale (word_of_int 0) = 128
   \<and> downscale (word_of_int (- 32768)) = 0
   \<and> downscale (word_of_int 32767) = 255"
proof -
  let ?r = "(uint x + 32768) mod 65536 div 256"
  have lt: "(uint x + 32768) mod 65536 < 65536"
    by simp
  have r: "0 \<le> ?r" "?r < 256"
    using lt by simp_all
  have "uint (downscale x) = uint (word_of_int ?r :: u8)"
    unfolding downscale_def uint_add_32768 by (simp add: drop_bit_eq_div)
  also have "\<dots> = ?r mod 256"
    by (simp add: uint_word_of_int)
  also have "\<dots> = ?r"
    using r by simp
  finally have "uint (downscale x) = ((sint x + 32768) mod 65536) div 256"
    by (simp add: sint_add_32768)
  moreover have "downscale (word_of_int 0) = 128" "downscale (word_of_int (- 32768)) = 0"
    "downscale (word_of_int 32767) = 255"
    by (simp_all add: downscale_def)
  ultimately show ?thesis
    by simp
qed

theorem downscale_bias_shift_witness:
  "uint (downscale 0x4000) = 192 \<and> sint (0x4000 :: u16) = 16384"
  using downscale_bias_shift [of "0x4000"] by simp

text \<open>
  C6. When \<^verbatim>\<open>play_wav\<close> is entered with a buffer whose first byte is zero, it returns
  having printed its diagnostic and set the mode to \<^verbatim>\<open>DEMO_MODE_PAUSED\<close>, and nothing
  else: no DMA transfer, no allocation, no change of the memory.
\<close>

theorem play_wav_never_received:
  "mem w file = 0 \<Longrightarrow> play_wav h file w = Some (play_wav_refused w)"
  by (simp add: play_wav_def emit_def Let_def play_wav_refused_def)

theorem play_wav_never_received_witness:
  "mem world0 0x1000 = 0 \<and>
   play_wav quiet_hw 0x1000 world0 =
     Some (world0\<lparr>mode := DEMO_MODE_PAUSED,
             trace := [xil_printf ''preparing for playback'' [],
                       xil_printf ''Must receive a WAV file to be able to play'' []]\<rparr>)"
  using play_wav_never_received [of world0 "0x1000" quiet_hw]
  by (simp add: world0_def play_wav_refused_def)

text \<open>
  The claim C2 as it is written fails: for the buffer \<open>long_fmt_file\<close> the offset of
  the data chunk is \<open>0x800014\<close>, beyond the \<open>0x7FFFFF\<close> bytes of the buffer, and
  \<^verbatim>\<open>play_wav\<close> does not fail. It reads the data length and the sample behind the
  buffer, converts the sample and sends it to the DMA.
\<close>

theorem play_wav_bounds_counterexample:
  "max_file_size < p_data_of (mem long_fmt_world) long_fmt_file - long_fmt_file \<and>
   play_wav quiet_hw long_fmt_file long_fmt_world =
     Some (long_fmt_world\<lparr>mode := DEMO_MODE_PAUSED,
        mem := (mem long_fmt_world)(0x90000000 := 0xC0),
        trace := [xil_printf ''preparing for playback'' [], malloc 1,
                  Xil_DCacheFlushRange 0x90000000 1,
                  XAxiDma_SimpleTransfer 0x90000000 1 XAXIDMA_DMA_TO_DEVICE,
                  XAxiDma_Busy XAXIDMA_DMA_TO_DEVICE,
                  XAxiDma_ReadReg_SR XAXIDMA_DMA_TO_DEVICE,
                  Xil_DCacheFlushRange 0x90000000 1,
                  xil_printf ''sleep for a while'' [], sleep 2, free 0x90000000,
                  XAxiDma_Reset, XAxiDma_ResetIsDone,
                  xil_printf ''Exiting play mode'' []]\<rparr>)"
  by (simp add: play_wav_def p_data_of_def wav_data_of_def p_format_of_def buf2u32_def buf2u16_def
      long_fmt_world_def long_fmt_file_def world0_def quiet_hw_def emit_def max_file_size_def
      dma_send_def dma_reset_def wait_while_busy.simps wait_reset_done.simps downscale_def
      downscale_loop.simps Let_def)

text \<open>
  C2, amended. The data chunk header that the decoder uses is at the offset
  \<open>12 + 8 + fmt_chunk_size\<close> from the start of the file, in 32-bit arithmetic. The
  offset is not compared with the length of the buffer, and no operation fails on it.
  \<^verbatim>\<open>play_wav\<close> refuses to play exactly when the first byte of the buffer is zero.
  Otherwise, whenever the DMA answers, it returns: it has allocated half the data length
  that it reads 4 bytes behind that offset, converted as many samples from 8 bytes behind
  that offset, and sent them to the DMA. \<^verbatim>\<open>recv_wav\<close>, given a pointer that is not
  \<^verbatim>\<open>NULL\<close>, returns whenever the UART and the DMA answer: after the reception it prints
  the fields, the two of the data chunk read at that offset, runs \<^verbatim>\<open>play_wav\<close> on the
  buffer and prints its last message.
\<close>

theorem play_wav_offset_unchecked:
  "p_data_of (mem w) file - file = 12 + 8 + buf2u32 (mem w) (file + 16) \<and>
   (play_wav h file w = Some (play_wav_refused w) \<longleftrightarrow> mem w file = 0) \<and>
   (dma_responsive h \<longrightarrow> mem w file \<noteq> 0 \<longrightarrow>
      (let offset = 12 + 8 + buf2u32 (mem w) (file + 16);
           len = buf2u32 (mem w) (file + offset + 4) div 2;
           dma_data = malloc_ret h (trace w @ [xil_printf ''preparing for playback'' []])
       in \<exists>es. play_wav h file w =
            Some (w\<lparr>mode := DEMO_MODE_PAUSED,
                    mem := downscale_loop (file + offset + 8) dma_data len 0 (mem w),
                    trace := trace w @ xil_printf ''preparing for playback'' [] # malloc len #
                               Xil_DCacheFlushRange dma_data len #
                               XAxiDma_SimpleTransfer dma_data len XAXIDMA_DMA_TO_DEVICE # es\<rparr>))) \<and>
   (dma_responsive h \<longrightarrow> uart_responsive h \<longrightarrow> file \<noteq> 0 \<longrightarrow>
      (\<exists>w3 w4. recv_wav_receive h file w = Some w3 \<and>
         play_wav h file (w3\<lparr>trace := trace w3 @ file_info (mem w3) file\<rparr>) = Some w4 \<and>
         recv_wav h file w = Some (emit (xil_printf ''Exiting receive mode'' []) w4))) \<and>
   drop 15 (file_info (mem w) file) =
     [xil_printf ''    fmt_chunk_marker: %s''
        [PStr (c_string (buf2str (mem w) (file + (12 + 8 + buf2u32 (mem w) (file + 16))) 4))],
      xil_printf ''    data_chunk_size: %d''
        [PInt (buf2u32 (mem w) (file + (12 + 8 + buf2u32 (mem w) (file + 16)) + 4))]]"
proof -
  have off: "p_data_of (mem w) file = file + (12 + 8 + buf2u32 (mem w) (file + 16))"
    by (simp add: p_data_of_def p_format_of_def add.assoc)
  have refused: "play_wav h file w = Some (play_wav_refused w) \<longleftrightarrow> mem w file = 0"
  proof
    assume r: "play_wav h file w = Some (play_wav_refused w)"
    show "mem w file = 0"
    proof (rule ccontr)
      assume "mem w file \<noteq> 0"
      from play_wav_played [OF this r] obtain es where
        "play_wav_refused w = w\<lparr>mode := DEMO_MODE_PAUSED,
            mem := downscale_loop (wav_data_of (mem w) file)
                     (malloc_ret h (trace w @ [xil_printf ''preparing for playback'' []]))
                     (buf2u32 (mem w) (p_data_of (mem w) file + 4) div 2) 0 (mem w),
            trace := trace w @ xil_printf ''preparing for playback'' [] #
                       malloc (buf2u32 (mem w) (p_data_of (mem w) file + 4) div 2) # es\<rparr>"
        by blast
      then have "trace (play_wav_refused w) = trace w @ xil_printf ''preparing for playback'' [] #
                       malloc (buf2u32 (mem w) (p_data_of (mem w) file + 4) div 2) # es"
        by simp
      then show False
        by (simp add: play_wav_refused_def)
    qed
  next
    assume "mem w file = 0"
    then show "play_wav h file w = Some (play_wav_refused w)"
      by (simp add: play_wav_def emit_def Let_def play_wav_refused_def)
  qed
  have played: "let offset = 12 + 8 + buf2u32 (mem w) (file + 16);
           len = buf2u32 (mem w) (file + offset + 4) div 2;
           dma_data = malloc_ret h (trace w @ [xil_printf ''preparing for playback'' []])
       in \<exists>es. play_wav h file w =
            Some (w\<lparr>mode := DEMO_MODE_PAUSED,
                    mem := downscale_loop (file + offset + 8) dma_data len 0 (mem w),
                    trace := trace w @ xil_printf ''preparing for playback'' [] # malloc len #
                               Xil_DCacheFlushRange dma_data len #
                               XAxiDma_SimpleTransfer dma_data len XAXIDMA_DMA_TO_DEVICE # es\<rparr>)"
    if "dma_responsive h" and "mem w file \<noteq> 0"
    using play_wav_total [OF that] unfolding Let_def wav_data_of_def off .
  from off have "p_data_of (mem w) file - file = 12 + 8 + buf2u32 (mem w) (file + 16)"
    by simp
  with refused played recv_wav_total [of h "file" w] file_info_data [of "mem w" "file"] show ?thesis
    by blast
qed

theorem play_wav_offset_unchecked_witness:
  "p_data_of (mem long_fmt_world) long_fmt_file - long_fmt_file = 0x800014 \<and>
   map_option (\<lambda>w'. (mode w', take 4 (trace w'))) (play_wav quiet_hw long_fmt_file long_fmt_world) =
     Some (DEMO_MODE_PAUSED,
       [xil_printf ''preparing for playback'' [], malloc 1,
        Xil_DCacheFlushRange 0x90000000 1,
        XAxiDma_SimpleTransfer 0x90000000 1 XAXIDMA_DMA_TO_DEVICE]) \<and>
   map_option (\<lambda>w'. last (trace w')) (recv_wav wav_file_hw 0x1000 world0) =
     Some (xil_printf ''Exiting receive mode'' [])"
proof -
  have q: "dma_responsive quiet_hw"
    by (simp add: dma_responsive_def quiet_hw_def)
  have nz: "mem long_fmt_world long_fmt_file \<noteq> 0"
    by (simp add: long_fmt_world_def long_fmt_file_def)
  have sz: "buf2u32 (mem long_fmt_world) (long_fmt_file + 16) = 0x800000"
    by (simp add: buf2u32_def long_fmt_world_def long_fmt_file_def)
  have len: "buf2u32 (mem long_fmt_world) (long_fmt_file + 0x800014 + 4) div 2 = 1"
    by (simp add: buf2u32_def long_fmt_world_def long_fmt_file_def)
  have m: "malloc_ret quiet_hw t = 0x90000000" for t
    by (simp add: quiet_hw_def)
  have d: "dma_responsive wav_file_hw"
    by (simp add: dma_responsive_def wav_file_hw_def quiet_hw_def)
  have u: "uart_responsive wav_file_hw"
    by (simp add: uart_responsive_def wav_file_hw_def)
  from play_wav_offset_unchecked [of long_fmt_world long_fmt_file quiet_hw] q nz sz len m
  have 1: "p_data_of (mem long_fmt_world) long_fmt_file - long_fmt_file = 0x800014"
    and 2: "map_option (\<lambda>w'. (mode w', take 4 (trace w'))) (play_wav quiet_hw long_fmt_file long_fmt_world) =
     Some (DEMO_MODE_PAUSED,
       [xil_printf ''preparing for playback'' [], malloc 1,
        Xil_DCacheFlushRange 0x90000000 1,
        XAxiDma_SimpleTransfer 0x90000000 1 XAXIDMA_DMA_TO_DEVICE])"
    by (auto simp add: Let_def long_fmt_world_def world0_def)
  from play_wav_offset_unchecked [of world0 "0x1000" wav_file_hw] d u
  have 3: "map_option (\<lambda>w'. last (trace w')) (recv_wav wav_file_hw 0x1000 world0) =
     Some (xil_printf ''Exiting receive mode'' [])"
    by (auto simp add: emit_def)
  from 1 2 3 show ?thesis
    by simp
qed

text \<open>
  C9. The number of bytes that \<^verbatim>\<open>recv_wav\<close> asks for after the header is the overall
  size declared by the header (the little-endian value of its bytes 4 to 7) minus 4, in
  32-bit arithmetic; a header that declares 44 gives 40.
\<close>

theorem recv_var_overall_size:
  "uint (buf2u32 m (file + 4)) =
      uint (m (file + 4)) + 256 * uint (m (file + 5)) + 65536 * uint (m (file + 6))
        + 16777216 * uint (m (file + 7))
   \<and> uint (recv_var m file) = (uint (buf2u32 m (file + 4)) - 4) mod 2 ^ 32"
proof
  show "uint (buf2u32 m (file + 4)) =
      uint (m (file + 4)) + 256 * uint (m (file + 5)) + 65536 * uint (m (file + 6))
        + 16777216 * uint (m (file + 7))"
    using uint_buf2u32 [of m "file + 4"] by (simp add: add.assoc)
  show "uint (recv_var m file) = (uint (buf2u32 m (file + 4)) - 4) mod 2 ^ 32"
    by (simp add: recv_var_def uint_word_ariths)
qed

theorem recv_var_overall_size_witness:
  "uint (buf2u32 size44_mem (0x1000 + 4)) = 44 \<and> recv_var size44_mem 0x1000 = 40"
proof -
  from recv_var_overall_size [of size44_mem "0x1000"]
  have "uint (buf2u32 size44_mem (0x1000 + 4)) = 44" and "uint (recv_var size44_mem 0x1000) = 40"
    by (simp_all add: size44_mem_def)
  then show ?thesis
    by (simp add: word_uint_eq_iff)
qed

section \<open>The mode switch: the claim\<close>

text \<open>
  C7. In a turn of the loop of \<^verbatim>\<open>main\<close>, after the inputs are sampled, a positive-edge
  mask of the buttons equal to \<open>0x01\<close> sets the mode to \<^verbatim>\<open>DEMO_MODE_PAUSED\<close>,
  \<open>0x04\<close> to \<^verbatim>\<open>DEMO_MODE_RECV_WAV_FILE\<close>, \<open>0x08\<close> to \<^verbatim>\<open>DEMO_MODE_PLAY_WAV_FILE\<close>,
  \<open>0x10\<close> to \<^verbatim>\<open>DEMO_MODE_SW_TONE_GEN\<close>; every other mask, combinations of these bits
  included, leaves the mode as it was.
\<close>

theorem mode_switch_table:
  "mode (mode_switch (button_pe (fst (get_gpio_data h w))) (snd (get_gpio_data h w))) =
     (let pe = button_pe (fst (get_gpio_data h w)) in
      if pe = 0x01 then DEMO_MODE_PAUSED
      else if pe = 0x04 then DEMO_MODE_RECV_WAV_FILE
      else if pe = 0x08 then DEMO_MODE_PLAY_WAV_FILE
      else if pe = 0x10 then DEMO_MODE_SW_TONE_GEN
      else mode w)"
  by (simp add: mode_switch_def get_gpio_data_def emit_def Let_def)

theorem mode_switch_table_witness:
  "button_pe (fst (get_gpio_data (inputs_hw 0x0C) (world0\<lparr>mode := DEMO_MODE_PAUSED\<rparr>))) = 0x0C \<and>
   mode (mode_switch (button_pe (fst (get_gpio_data (inputs_hw 0x0C) (world0\<lparr>mode := DEMO_MODE_PAUSED\<rparr>))))
           (snd (get_gpio_data (inputs_hw 0x0C) (world0\<lparr>mode := DEMO_MODE_PAUSED\<rparr>)))) = DEMO_MODE_PAUSED \<and>
   mode (mode_switch (button_pe (fst (get_gpio_data (inputs_hw 0x08) world0)))
           (snd (get_gpio_data (inputs_hw 0x08) world0))) = DEMO_MODE_PLAY_WAV_FILE"
  using mode_switch_table [of "inputs_hw 0x0C" "world0\<lparr>mode := DEMO_MODE_PAUSED\<rparr>"]
    mode_switch_table [of "inputs_hw 0x08" world0]
  by (simp add: get_gpio_data_def inputs_hw_def quiet_hw_def world0_def gpio0_def emit_def Let_def)

section \<open>The tone generator: the claims\<close>

text \<open>
  C4. For every sequence of 8-bit samples whose length is a multiple of 4, the sample loop
  of the tone generator, started with \<^verbatim>\<open>i = 0\<close>, leaves in the buffer exactly the words
  of the packing rule \<open>word0 = (s3<<8)|s2\<close>, \<open>word1 = (s1<<8)|s0\<close> for each group of
  four, and reading the samples back from these words gives the original sequence.
\<close>

theorem pack_unpack_roundtrip:
  "length ys mod 4 = 0 \<Longrightarrow> tg_i v = 0 \<Longrightarrow>
     tone_words (run_samples ys 0 v) = spec_pack ys \<and>
     spec_unpack (tone_words (run_samples ys 0 v)) = ys"
  by (simp add: tone_words_run spec_unpack_pack)

theorem pack_unpack_roundtrip_witness:
  "length [0x00, 0x01, 0x02, 0x03 :: u8] mod 4 = 0 \<and> tg_i tone_vars0 = 0 \<and>
   tone_words (run_samples [0x00, 0x01, 0x02, 0x03] 0 tone_vars0) = [0x00000302, 0x00000100] \<and>
   spec_unpack (tone_words (run_samples [0x00, 0x01, 0x02, 0x03] 0 tone_vars0)) =
     [0x00, 0x01, 0x02, 0x03]"
  using pack_unpack_roundtrip [of "[0x00, 0x01, 0x02, 0x03]" tone_vars0]
  by (simp add: tone_vars0_def)

text \<open>
  C8. The sample loop terminates (it is a total function, by the termination proof of
  \<open>tone_loop\<close>); with the bounds of the source (256 samples, 48 = 96000/2000 sample
  periods) it leaves with \<^verbatim>\<open>sample = 48\<close> and \<^verbatim>\<open>time = 48\<close>, having run its body for
  exactly the 48 sample indices 0, ..., 47, which is no more than 256.
\<close>

theorem tone_loop_48_iterations:
  "tone_loop Y8 0 0 v = (48, 48, run_samples (map (\<lambda>n. Y8 (real n)) [0..<48]) 0 v) \<and>
   length (map (\<lambda>n. Y8 (real n)) [0..<48]) = 48"
  using tone_loop_from [of 0 Y8 v] by simp

theorem tone_loop_48_iterations_witness:
  "fst (tone_loop (\<lambda>t. 0) 0 0 tone_vars0) = 48 \<and> fst (snd (tone_loop (\<lambda>t. 0) 0 0 tone_vars0)) = 48"
  using tone_loop_48_iterations [of "\<lambda>t. 0" tone_vars0] by simp

text \<open>
  C10. In the tone generator the sample loop, started with \<^verbatim>\<open>i = 0\<close>, does this for
  every sequence of N generated samples: the words that are sent are those of the
  complete groups of 4 samples alone (the samples of a trailing incomplete group leave no
  trace in the buffer), no word at index \<^verbatim>\<open>i\<close> or above is written, every word sent has
  its upper 16 bits zero, and \<^verbatim>\<open>i*4\<close> is 8 times the number of complete groups. In
  \<^verbatim>\<open>dma_sw_tone_gen\<close> itself the loop leaves the words of the 12 groups of its 48 samples
  in memory at \<^verbatim>\<open>buffer\<close>, and the byte length that the function passes to \<^verbatim>\<open>dma_send\<close>
  in its \<^verbatim>\<open>while (1)\<close> is \<open>96 = 8 * (48 div 4)\<close>, at the first send and at every later
  one. With a DMA that answers and a button found pressed at the first sample of the
  inputs, the function returns, and the events after \<^verbatim>\<open>malloc\<close> and \<^verbatim>\<open>usleep\<close> begin
  with the flush and the transfer of these 96 bytes.
\<close>

theorem tone_gen_complete_groups:
  "(tg_i v = 0 \<longrightarrow>
     tone_words (run_samples ys 0 v) = tone_words (run_samples (take (4 * (length ys div 4)) ys) 0 v) \<and>
     (\<forall>k\<ge>tg_i (run_samples ys 0 v). tg_buffer (run_samples ys 0 v) k = tg_buffer v k) \<and>
     (\<forall>x\<in>set (tone_words (run_samples ys 0 v)). drop_bit 16 x = 0) \<and>
     tg_i (run_samples ys 0 v) * 4 = 8 * (length ys div 4)) \<and>
   (case tone_gen_fill h Y8 temp0 w0 of
      (buffer, v', w) \<Rightarrow>
        buffer = malloc_ret h (trace w0) \<and>
        trace w = trace w0 @ [malloc 512, usleep 10000] \<and>
        tg_i v' * 4 = 8 * (length (map (\<lambda>n. Y8 (real n)) [0..<48]) div 4) \<and>
        map (load_u32_array (mem w) buffer) [0..<tg_i v'] = spec_pack (map (\<lambda>n. Y8 (real n)) [0..<48]) \<and>
        dma_sw_tone_gen h Y8 temp0 w0 =
          (case dma_send h buffer 96 w of
             None \<Rightarrow> None
           | Some r \<Rightarrow>
               (if button_pe (fst (get_gpio_data h (snd r))) \<noteq> 0
                then tone_gen_finish h buffer (snd (get_gpio_data h (snd r)))
                else (case tone_send_loop h buffer 96 (snd (get_gpio_data h (snd r))) of
                        None \<Rightarrow> None
                      | Some w' \<Rightarrow> tone_gen_finish h buffer w')))) \<and>
   (dma_responsive h \<longrightarrow>
    (\<forall>t. (ucast (DiscreteRead_ret h t) :: u8) AND NOT (buttons (last_gpio w0)) \<noteq> 0) \<longrightarrow>
      (\<exists>w' es. dma_sw_tone_gen h Y8 temp0 w0 = Some w' \<and> mode w' = DEMO_MODE_PAUSED \<and>
         trace w' = trace w0 @ malloc 512 # usleep 10000 #
                      Xil_DCacheFlushRange (malloc_ret h (trace w0)) 96 #
                      XAxiDma_SimpleTransfer (malloc_ret h (trace w0)) 96 XAXIDMA_DMA_TO_DEVICE # es))"
proof -
  have groups: "tone_words (run_samples ys 0 v) = tone_words (run_samples (take (4 * (length ys div 4)) ys) 0 v) \<and>
     (\<forall>k\<ge>tg_i (run_samples ys 0 v). tg_buffer (run_samples ys 0 v) k = tg_buffer v k) \<and>
     (\<forall>x\<in>set (tone_words (run_samples ys 0 v)). drop_bit 16 x = 0) \<and>
     tg_i (run_samples ys 0 v) * 4 = 8 * (length ys div 4)" if i: "tg_i v = 0"
  proof -
    have al: "unat (0::u16) mod 4 = 0"
      by simp
    note ch = run_samples_char [OF al, of ys v]
    have "tone_words (run_samples ys 0 v) = tone_words (run_samples (take (4 * (length ys div 4)) ys) 0 v)"
      using i by (simp add: tone_words_run spec_pack_take)
    moreover have "\<forall>k\<ge>tg_i (run_samples ys 0 v). tg_buffer (run_samples ys 0 v) k = tg_buffer v k"
      using ch i by simp
    moreover have "\<forall>x\<in>set (tone_words (run_samples ys 0 v)). drop_bit 16 x = 0"
      using i by (simp add: tone_words_run spec_pack_upper)
    moreover have "tg_i (run_samples ys 0 v) * 4 = 8 * (length ys div 4)"
      using ch i by (simp add: length_spec_pack)
    ultimately show ?thesis
      by blast
  qed
  obtain buffer v' w where f: "tone_gen_fill h Y8 temp0 w0 = (buffer, v', w)"
    by (metis prod_cases3)
  from f tone_gen_fill_simps [of h Y8 temp0 w0] have
    b: "buffer = malloc_ret h (trace w0)" and i: "tg_i v' = 24"
    and t: "trace w = trace w0 @ [malloc 512, usleep 10000]"
    by simp_all
  from f tone_gen_fill_words [of h Y8 temp0 w0] have
    ws: "map (load_u32_array (mem w) buffer) [0..<tg_i v'] = spec_pack (map (\<lambda>n. Y8 (real n)) [0..<48])"
    by simp
  from f dma_sw_tone_gen_sends [of h Y8 temp0 w0] have
    sends: "dma_sw_tone_gen h Y8 temp0 w0 =
          (case dma_send h buffer 96 w of
             None \<Rightarrow> None
           | Some r \<Rightarrow>
               (if button_pe (fst (get_gpio_data h (snd r))) \<noteq> 0
                then tone_gen_finish h buffer (snd (get_gpio_data h (snd r)))
                else (case tone_send_loop h buffer 96 (snd (get_gpio_data h (snd r))) of
                        None \<Rightarrow> None
                      | Some w' \<Rightarrow> tone_gen_finish h buffer w')))"
    by simp
  have fill: "case tone_gen_fill h Y8 temp0 w0 of
      (buffer, v', w) \<Rightarrow>
        buffer = malloc_ret h (trace w0) \<and>
        trace w = trace w0 @ [malloc 512, usleep 10000] \<and>
        tg_i v' * 4 = 8 * (length (map (\<lambda>n. Y8 (real n)) [0..<48]) div 4) \<and>
        map (load_u32_array (mem w) buffer) [0..<tg_i v'] = spec_pack (map (\<lambda>n. Y8 (real n)) [0..<48]) \<and>
        dma_sw_tone_gen h Y8 temp0 w0 =
          (case dma_send h buffer 96 w of
             None \<Rightarrow> None
           | Some r \<Rightarrow>
               (if button_pe (fst (get_gpio_data h (snd r))) \<noteq> 0
                then tone_gen_finish h buffer (snd (get_gpio_data h (snd r)))
                else (case tone_send_loop h buffer 96 (snd (get_gpio_data h (snd r))) of
                        None \<Rightarrow> None
                      | Some w' \<Rightarrow> tone_gen_finish h buffer w')))"
    unfolding f prod.case
  proof (intro conjI)
    show "tg_i v' * 4 = 8 * (length (map (\<lambda>n. Y8 (real n)) [0..<48]) div 4)"
      using i by simp
  qed (rule b t ws sends)+
  from groups fill dma_sw_tone_gen_total [of h w0 Y8 temp0] show ?thesis
    by blast
qed

theorem tone_gen_complete_groups_witness:
  "tone_words (run_samples [1, 2, 3, 4, 5, 6] 0 tone_vars0) = [0x0403, 0x0201] \<and>
   tone_words (run_samples (take (4 * (length [1, 2, 3, 4, 5, 6 :: u8] div 4)) [1, 2, 3, 4, 5, 6]) 0 tone_vars0)
     = [0x0403, 0x0201] \<and>
   tg_buffer (run_samples [1, 2, 3, 4, 5, 6] 0 tone_vars0) 2 = tg_buffer tone_vars0 2 \<and>
   tg_i (run_samples [1, 2, 3, 4, 5, 6] 0 tone_vars0) * 4 = 8 \<and>
   map_option (\<lambda>w. (mode w, take 4 (trace w))) (dma_sw_tone_gen (inputs_hw 1) (\<lambda>t. 0) (\<lambda>k. 0) world0) =
     Some (DEMO_MODE_PAUSED,
       [malloc 512, usleep 10000, Xil_DCacheFlushRange 0x90000000 96,
        XAxiDma_SimpleTransfer 0x90000000 96 XAXIDMA_DMA_TO_DEVICE])"
proof -
  have a: "tone_words (run_samples [1, 2, 3, 4] 0 tone_vars0) = [0x0403, 0x0201]"
    by (simp add: tone_words_def put_sample_def tone_vars0_def upt_rec)
  have i: "tg_i tone_vars0 = 0"
    by (simp add: tone_vars0_def)
  have d: "dma_responsive (inputs_hw 1)"
    by (simp add: dma_responsive_def inputs_hw_def quiet_hw_def)
  have e: "\<forall>t. (ucast (DiscreteRead_ret (inputs_hw 1) t) :: u8) AND NOT (buttons (last_gpio world0)) \<noteq> 0"
    by (simp add: inputs_hw_def quiet_hw_def world0_def gpio0_def)
  have m: "malloc_ret (inputs_hw 1) t = 0x90000000" for t
    by (simp add: inputs_hw_def quiet_hw_def)
  from tone_gen_complete_groups [of tone_vars0 "[1, 2, 3, 4, 5, 6]" "inputs_hw 1" world0 "\<lambda>t. 0" "\<lambda>k. 0"]
    i d e
  have 1: "tone_words (run_samples [1, 2, 3, 4, 5, 6] 0 tone_vars0) =
      tone_words (run_samples (take (4 * (length [1, 2, 3, 4, 5, 6 :: u8] div 4)) [1, 2, 3, 4, 5, 6]) 0 tone_vars0)"
    and 2: "tg_buffer (run_samples [1, 2, 3, 4, 5, 6] 0 tone_vars0) 2 = tg_buffer tone_vars0 2"
    and 3: "tg_i (run_samples [1, 2, 3, 4, 5, 6] 0 tone_vars0) * 4 = 8"
    and 4: "\<exists>w' es. dma_sw_tone_gen (inputs_hw 1) (\<lambda>t. 0) (\<lambda>k. 0) world0 = Some w' \<and>
         mode w' = DEMO_MODE_PAUSED \<and>
         trace w' = trace world0 @ malloc 512 # usleep 10000 #
                      Xil_DCacheFlushRange (malloc_ret (inputs_hw 1) (trace world0)) 96 #
                      XAxiDma_SimpleTransfer (malloc_ret (inputs_hw 1) (trace world0)) 96
                        XAXIDMA_DMA_TO_DEVICE # es"
    by simp_all
  from 4 m have 5: "map_option (\<lambda>w. (mode w, take 4 (trace w)))
      (dma_sw_tone_gen (inputs_hw 1) (\<lambda>t. 0) (\<lambda>k. 0) world0) =
     Some (DEMO_MODE_PAUSED,
       [malloc 512, usleep 10000, Xil_DCacheFlushRange 0x90000000 96,
        XAxiDma_SimpleTransfer 0x90000000 96 XAXIDMA_DMA_TO_DEVICE])"
    by (auto simp add: world0_def)
  from 1 2 3 5 a show ?thesis
    by simp
qed

section \<open>Two whole runs\<close>

text \<open>
  \<^verbatim>\<open>dma_sw_tone_gen\<close> with quiet peripherals and a button pressed at the first sample of
  the inputs: the buffer is sent once with the length 96, then cleared and sent whole.
\<close>

lemma dma_sw_tone_gen_run:
  "map_option (\<lambda>w. (mode w, trace w)) (dma_sw_tone_gen (inputs_hw 1) Y8 temp0 world0) =
     Some (DEMO_MODE_PAUSED,
       [malloc 512, usleep 10000,
        Xil_DCacheFlushRange 0x90000000 96,
        XAxiDma_SimpleTransfer 0x90000000 96 XAXIDMA_DMA_TO_DEVICE,
        XAxiDma_Busy XAXIDMA_DMA_TO_DEVICE,
        XAxiDma_ReadReg_SR XAXIDMA_DMA_TO_DEVICE,
        Xil_DCacheFlushRange 0x90000000 96,
        XGpio_DiscreteRead 1, XGpio_DiscreteRead 2,
        xil_printf ''Exiting SW tone gen mode'' [],
        Xil_DCacheFlushRange 0x90000000 512,
        XAxiDma_SimpleTransfer 0x90000000 512 XAXIDMA_DMA_TO_DEVICE,
        XAxiDma_Busy XAXIDMA_DMA_TO_DEVICE,
        XAxiDma_ReadReg_SR XAXIDMA_DMA_TO_DEVICE,
        Xil_DCacheFlushRange 0x90000000 512,
        free 0x90000000, XAxiDma_Reset, XAxiDma_ResetIsDone])"
  by (simp add: dma_sw_tone_gen_def tone_gen_fill_def tone_gen_finish_def tone_loop_i buffer_size_def
      tone_send_loop.simps dma_send_def dma_reset_def wait_while_busy.simps wait_reset_done.simps
      get_gpio_data_def inputs_hw_def quiet_hw_def world0_def gpio0_def emit_def Let_def)

text \<open>
  \<^verbatim>\<open>recv_wav\<close> on the file of 52 bytes: the 12 and the 40 bytes are received, the fields
  are printed, and the four samples go to the DMA as 128, 0, 255 and 192. The calls of
  \<^verbatim>\<open>XUartLite_Recv\<close> are left out of the trace shown.
\<close>

lemma wav_file_recv:
  "map_option (\<lambda>w. (mode w, map (mem w) [0x90000000, 0x90000001, 0x90000002, 0x90000003],
                      filter (\<lambda>e. \<not> is_uart_recv e) (trace w)))
     (recv_wav wav_file_hw 0x1000 world0) =
   Some (DEMO_MODE_PAUSED, [0x80, 0x00, 0xFF, 0xC0],
     [XUartLite_ResetFifos, xil_printf ''Demo waiting for a WAV file...'' [],
      xil_printf ''header received'' [],
      xil_printf ''file info: '' [],
      xil_printf ''  header:'' [],
      xil_printf ''    riff: %s'' [PStr [0x52, 0x49, 0x46, 0x46]],
      xil_printf ''    overall_size: %d'' [PInt 44],
      xil_printf ''    wave: %s'' [PStr [0x57, 0x41, 0x56, 0x45]],
      xil_printf ''  format:'' [],
      xil_printf ''    fmt_chunk_marker: %s'' [PStr [0x66, 0x6D, 0x74, 0x20]],
      xil_printf ''    fmt_chunk_size: %d'' [PInt 16],
      xil_printf ''    format_type: %d'' [PInt 1],
      xil_printf ''    channels: %d'' [PInt 1],
      xil_printf ''    sample_rate: %d'' [PInt 96000],
      xil_printf ''    byte_rate: %d'' [PInt 192000],
      xil_printf ''    block_align: %d'' [PInt 2],
      xil_printf ''    bits_per_sample: %d'' [PInt 16],
      xil_printf ''  data:'' [],
      xil_printf ''    fmt_chunk_marker: %s'' [PStr [0x64, 0x61, 0x74, 0x61]],
      xil_printf ''    data_chunk_size: %d'' [PInt 8],
      xil_printf ''preparing for playback'' [], malloc 4,
      Xil_DCacheFlushRange 0x90000000 4,
      XAxiDma_SimpleTransfer 0x90000000 4 XAXIDMA_DMA_TO_DEVICE,
      XAxiDma_Busy XAXIDMA_DMA_TO_DEVICE,
      XAxiDma_ReadReg_SR XAXIDMA_DMA_TO_DEVICE,
      Xil_DCacheFlushRange 0x90000000 4, xil_printf ''sleep for a while'' [],
      sleep 2, free 0x90000000, XAxiDma_Reset, XAxiDma_ResetIsDone,
      xil_printf ''Exiting play mode'' [],
      xil_printf ''Exiting receive mode'' []])"
  by (simp add: recv_wav_def recv_wav_receive_def uart_recv_def uart_recv_loop.simps wav_file_hw_def
      quiet_hw_def world0_def emit_def wav_file_def is_uart_recv_def recv_var_def buf2u32_def buf2u16_def
      buf2str_def c_string_def file_info_def p_data_of_def p_format_of_def wav_data_of_def
      play_wav_def dma_send_def dma_reset_def wait_while_busy.simps wait_reset_done.simps
      downscale_def downscale_loop.simps Let_def upt_rec)

end
